theory Spec2Isabelle
  imports Complex_Main
begin

section \<open>The MNIST tutorial script of cleverhans (tutorials/tf2/mnist_tutorial.py)\<close>

text \<open>
  The script builds a small convolutional network, trains it (optionally on adversarial
  examples), runs seven attacks of the cleverhans library on every test batch and prints
  one accuracy per attack. Everything numerical (the Keras layers, automatic
  differentiation, the optimizer, the metrics and the attacks themselves) belongs to
  libraries the script only calls. The embedding therefore keeps these collaborators as
  the fields of one record \<open>ext\<close> of functions over an arbitrary tensor type \<open>'t\<close>, and
  models what the script itself decides: which collaborator is called, with which
  arguments, on which value and in which order. Every call the body of \<open>main\<close> makes is
  appended to a trace kept in the state, next to the values the script mutates (the
  trainable variables, the optimizer slots and the metric objects).
\<close>

subsection \<open>The network: class Net\<close>

text \<open>
  A Keras layer object as its constructor call: \<open>Conv2D filters kernel_size strides
  activation padding\<close>, \<open>Dropout rate\<close>, \<open>Flatten\<close> and \<open>Dense units activation\<close>, where the
  activation of \<open>Dense(10)\<close> is Python's \<open>None\<close>.
\<close>

datatype layer =
    Conv2D int int "int \<times> int" string string
  | Dropout real
  | Flatten
  | Dense int "string option"

record Net =
  conv1 :: layer
  conv2 :: layer
  conv3 :: layer
  dropout :: layer
  flatten :: layer
  dense1 :: layer
  dense2 :: layer

text \<open>\<open>Net.__init__\<close>, lines 21 to 29.\<close>

definition Net_init :: Net where
  "Net_init =
     \<lparr> conv1 = Conv2D 64 8 (2, 2) ''relu'' ''same'',
       conv2 = Conv2D 128 6 (2, 2) ''relu'' ''valid'',
       conv3 = Conv2D 128 5 (1, 1) ''relu'' ''valid'',
       dropout = Dropout 0.25,
       flatten = Flatten,
       dense1 = Dense 128 (Some ''relu''),
       dense2 = Dense 10 None \<rparr>"

text \<open>
  \<open>Net.call\<close>, lines 31 to 38. The argument \<open>lc\<close> is the call of a Keras layer on a
  tensor; each line rebinds \<open>x\<close>.
\<close>

definition Net_call :: "(layer \<Rightarrow> 't \<Rightarrow> 't) \<Rightarrow> Net \<Rightarrow> 't \<Rightarrow> 't" where
  "Net_call lc self x =
     (let x = lc (conv1 self) x;
          x = lc (conv2 self) x;
          x = lc (conv3 self) x;
          x = lc (dropout self) x;
          x = lc (flatten self) x;
          x = lc (dense1 self) x
      in lc (dense2 self) x)"

text \<open>The layer attributes of a network, in the order \<open>__init__\<close> assigns them.\<close>

definition Net_layers :: "Net \<Rightarrow> layer list" where
  "Net_layers self =
     [conv1 self, conv2 self, conv3 self, dropout self, flatten self, dense1 self, dense2 self]"

subsection \<open>Flags, hyperparameters and the names of the script\<close>

text \<open>The three command-line flags defined at lines 178 to 182.\<close>

record FLAGS =
  nb_epochs :: int
  eps :: real
  adv_train :: bool

text \<open>
  An argument value the script passes to an attack: a Python float, an int, a bool or
  \<open>np.inf\<close>. Floats are only passed on, never computed with, so a float is kept as
  the real number its literal denotes.
\<close>

datatype hyper = HFloat real | HInt int | HBool bool | HInf

text \<open>The seven attack functions imported at lines 9 to 15.\<close>

datatype attack =
    projected_gradient_descent
  | fast_gradient_method
  | basic_iterative_method
  | madry_et_al
  | momentum_iterative_method
  | carlini_wagner_l2
  | carlini_wagner_l2_quantum

text \<open>The eight accuracy metrics created at lines 67 to 74, by the names of their variables.\<close>

datatype metric =
    test_acc_clean
  | test_acc_fgsm
  | test_acc_pgd
  | test_acc_bim
  | test_acc_mea
  | test_acc_mim
  | test_acc_cw
  | test_acc_cw_quantum

text \<open>The loss object and the optimizer of lines 62 and 63, as their constructor calls.\<close>

datatype loss_cfg = SparseCategoricalCrossentropy bool

datatype opt_cfg = Adam real

definition loss_object :: loss_cfg where
  "loss_object = SparseCategoricalCrossentropy True"

definition optimizer :: opt_cfg where
  "optimizer = Adam 0.001"

subsection \<open>The external collaborators\<close>

text \<open>
  \<open>'t\<close> is the type of tensors, \<open>'o\<close> of the optimizer's slot variables, \<open>'l\<close> of a
  \<open>tf.metrics.Mean\<close> object and \<open>'a\<close> of a \<open>tf.metrics.SparseCategoricalAccuracy\<close> object.
  The trainable variables of the network are a list of tensors. An attack receives the
  model as the function from inputs to logits, the batch, and its positional and keyword
  hyperparameters. \<open>tape_gradient f w\<close> is the gradient at \<open>w\<close> of the computation \<open>f\<close>
  recorded on the tape, one tensor per variable.
\<close>

record ('t, 'o, 'l, 'a) ext =
  initial_variables :: "'t list"
  layer_call :: "'t list \<Rightarrow> layer \<Rightarrow> 't \<Rightarrow> 't"
  attack_fn :: "attack \<Rightarrow> ('t \<Rightarrow> 't) \<Rightarrow> 't \<Rightarrow> hyper list \<Rightarrow> (string \<times> hyper) list \<Rightarrow> 't"
  loss_call :: "loss_cfg \<Rightarrow> 't \<Rightarrow> 't \<Rightarrow> 't"
  tape_gradient :: "('t list \<Rightarrow> 't) \<Rightarrow> 't list \<Rightarrow> 't list"
  initial_slots :: "opt_cfg \<Rightarrow> 'o"
  apply_gradients :: "opt_cfg \<Rightarrow> 'o \<Rightarrow> ('t \<times> 't) list \<Rightarrow> 'o \<times> 't list"
  Mean_new :: "string \<Rightarrow> 'l"
  Mean_call :: "'l \<Rightarrow> 't \<Rightarrow> 'l"
  Mean_result :: "'l \<Rightarrow> 't"
  SparseCategoricalAccuracy_new :: 'a
  SparseCategoricalAccuracy_call :: "'a \<Rightarrow> 't \<Rightarrow> 't \<Rightarrow> 'a"
  SparseCategoricalAccuracy_result :: "'a \<Rightarrow> 't"
  tensor_mul :: "'t \<Rightarrow> int \<Rightarrow> 't"
  shape0 :: "'t \<Rightarrow> int"

text \<open>
  The data \<open>ld_mnist\<close> returns: the batches one pass over \<open>data.train\<close> yields (the
  pipeline reshuffles, so the pass of each epoch has its own list) and the batches of
  \<open>data.test\<close>. A batch is a pair of an image tensor and a label tensor.
\<close>

record 't dataset =
  train :: "nat \<Rightarrow> ('t \<times> 't) list"
  test :: "('t \<times> 't) list"

subsection \<open>State and trace\<close>

text \<open>
  One event per call in the body of \<open>main\<close>. A call that reads the network carries the
  values its trainable variables had at the time of the call.
\<close>

datatype 't event =
    Model_call "'t list" 't
  | Attack_call attack "'t list" 't "hyper list" "(string \<times> hyper) list"
  | Metric_call metric 't 't
  | Train_step_call "'t list" 't 't
  | Progbar_new int
  | Progbar_add int "(string \<times> 't) list"
  | Print string 't

record ('t, 'o, 'l, 'a) state =
  variables :: "'t list"
  slots :: 'o
  train_loss :: 'l
  test_acc :: "metric \<Rightarrow> 'a"
  trace :: "'t event list"

definition emit :: "'t event \<Rightarrow> ('t, 'o, 'l, 'a) state \<Rightarrow> ('t, 'o, 'l, 'a) state" where
  "emit e s = s\<lparr>trace := trace s @ [e]\<rparr>"

text \<open>\<open>model\<close> as a function: \<open>Net.call\<close> of the network built at line 61, at given variables.\<close>

definition model_fn :: "('t, 'o, 'l, 'a) ext \<Rightarrow> 't list \<Rightarrow> 't \<Rightarrow> 't" where
  "model_fn E w = Net_call (layer_call E w) Net_init"

text \<open>A call \<open>model(x)\<close> in the body of \<open>main\<close>.\<close>

definition call_model ::
  "('t, 'o, 'l, 'a) ext \<Rightarrow> 't \<Rightarrow> ('t, 'o, 'l, 'a) state \<Rightarrow> 't \<times> ('t, 'o, 'l, 'a) state" where
  "call_model E x s = (model_fn E (variables s) x, emit (Model_call (variables s) x) s)"

text \<open>A call \<open>attack(model, x, *pos, **kw)\<close> of one of the imported attacks.\<close>

definition call_attack ::
  "('t, 'o, 'l, 'a) ext \<Rightarrow> attack \<Rightarrow> 't \<Rightarrow> hyper list \<Rightarrow> (string \<times> hyper) list \<Rightarrow>
     ('t, 'o, 'l, 'a) state \<Rightarrow> 't \<times> ('t, 'o, 'l, 'a) state" where
  "call_attack E a x pos kw s =
     (attack_fn E a (model_fn E (variables s)) x pos kw,
      emit (Attack_call a (variables s) x pos kw) s)"

text \<open>A call \<open>m(y, y_pred)\<close> of one of the accuracy metrics: it updates that metric only.\<close>

definition call_metric ::
  "('t, 'o, 'l, 'a) ext \<Rightarrow> metric \<Rightarrow> 't \<Rightarrow> 't \<Rightarrow> ('t, 'o, 'l, 'a) state \<Rightarrow> ('t, 'o, 'l, 'a) state" where
  "call_metric E m y y_pred s =
     emit (Metric_call m y y_pred)
       (s\<lparr>test_acc := (test_acc s)(m := SparseCategoricalAccuracy_call E (test_acc s m) y y_pred)\<rparr>)"

subsection \<open>\<open>train_step\<close>, lines 76 to 83\<close>

text \<open>
  The closure \<open>train_step\<close> of \<open>main\<close>: it reads \<open>model\<close>, \<open>loss_object\<close>, \<open>optimizer\<close> and
  \<open>train_loss\<close> and updates the variables, the optimizer slots and the mean. The tape records
  the two lines under \<open>with\<close>, the loss as a function of the variables. The decorator
  \<open>tf.function\<close> compiles the step and does not change what it computes.
\<close>

definition train_step ::
  "('t, 'o, 'l, 'a) ext \<Rightarrow> 't \<Rightarrow> 't \<Rightarrow> ('t, 'o, 'l, 'a) state \<Rightarrow> ('t, 'o, 'l, 'a) state" where
  "train_step E x y s =
     (let s = emit (Train_step_call (variables s) x y) s;
          taped = (\<lambda>w. loss_call E loss_object y (model_fn E w x));
          loss = taped (variables s);
          gradients = tape_gradient E taped (variables s);
          (slots', variables') = apply_gradients E optimizer (slots s) (zip gradients (variables s))
      in s\<lparr>variables := variables', slots := slots',
            train_loss := Mean_call E (train_loss s) loss\<rparr>)"

subsection \<open>\<open>main\<close>, lines 58 to 174\<close>

text \<open>Lines 60 to 74: the fresh network, optimizer and metrics.\<close>

definition init_state :: "('t, 'o, 'l, 'a) ext \<Rightarrow> ('t, 'o, 'l, 'a) state" where
  "init_state E =
     \<lparr> variables = initial_variables E,
       slots = initial_slots E optimizer,
       train_loss = Mean_new E ''train_loss'',
       test_acc = (\<lambda>m. SparseCategoricalAccuracy_new E),
       trace = [] \<rparr>"

text \<open>Lines 89 to 94: the body of the loop over the training batches.\<close>

definition train_batch ::
  "('t, 'o, 'l, 'a) ext \<Rightarrow> FLAGS \<Rightarrow> ('t, 'o, 'l, 'a) state \<Rightarrow> 't \<times> 't \<Rightarrow> ('t, 'o, 'l, 'a) state" where
  "train_batch E fl s b =
     (case b of (x, y) \<Rightarrow>
        let (x, s) =
              (if adv_train fl
               then call_attack E projected_gradient_descent x
                      [HFloat (eps fl), HFloat 0.01, HInt 40, HInf] [] s
               else (x, s));
            s = train_step E x y s
        in emit (Progbar_add (shape0 E x) [(''loss'', Mean_result E (train_loss s))]) s)"

text \<open>Lines 86 to 94: one epoch, and the loop over \<open>range(FLAGS.nb_epochs)\<close>.\<close>

definition train_epoch ::
  "('t, 'o, 'l, 'a) ext \<Rightarrow> FLAGS \<Rightarrow> 't dataset \<Rightarrow> ('t, 'o, 'l, 'a) state \<Rightarrow> nat \<Rightarrow> ('t, 'o, 'l, 'a) state" where
  "train_epoch E fl data s epoch =
     foldl (train_batch E fl) (emit (Progbar_new 60000) s) (train data epoch)"

definition train_loop ::
  "('t, 'o, 'l, 'a) ext \<Rightarrow> FLAGS \<Rightarrow> 't dataset \<Rightarrow> ('t, 'o, 'l, 'a) state \<Rightarrow> ('t, 'o, 'l, 'a) state" where
  "train_loop E fl data s = foldl (train_epoch E fl data) s [0..<nat (nb_epochs fl)]"

text \<open>Lines 98 to 130: the body of the loop over the test batches.\<close>

definition test_batch ::
  "('t, 'o, 'l, 'a) ext \<Rightarrow> FLAGS \<Rightarrow> ('t, 'o, 'l, 'a) state \<Rightarrow> 't \<times> 't \<Rightarrow> ('t, 'o, 'l, 'a) state" where
  "test_batch E fl s b =
     (case b of (x, y) \<Rightarrow>
        let (y_pred, s) = call_model E x s;
            s = call_metric E test_acc_clean y y_pred s;

            (x_fgm, s) = call_attack E fast_gradient_method x [HFloat (eps fl), HInf] [] s;
            (y_pred_fgm, s) = call_model E x_fgm s;
            s = call_metric E test_acc_fgsm y y_pred_fgm s;

            (x_pgd, s) = call_attack E projected_gradient_descent x
                           [HFloat (eps fl), HFloat 0.01, HInt 40, HInf] [] s;
            (y_pred_pgd, s) = call_model E x_pgd s;
            s = call_metric E test_acc_pgd y y_pred_pgd s;

            (x_bim, s) = call_attack E basic_iterative_method x [HFloat (eps fl)]
                           [(''eps_iter'', HFloat 0.01), (''nb_iter'', HInt 40), (''norm'', HInt 2)] s;
            (y_pred_bim, s) = call_model E x_bim s;
            s = call_metric E test_acc_bim y y_pred_bim s;

            (x_mea, s) = call_attack E madry_et_al x []
                           [(''eps'', HFloat 0.01), (''eps_iter'', HFloat 0.01),
                            (''nb_iter'', HInt 40), (''norm'', HInf)] s;
            (y_pred_mea, s) = call_model E x_mea s;
            s = call_metric E test_acc_mea y y_pred_mea s;

            (x_mim, s) = call_attack E momentum_iterative_method x []
                           [(''eps'', HFloat 0.01), (''eps_iter'', HFloat 0.01),
                            (''nb_iter'', HInt 40), (''norm'', HInf)] s;
            (y_pred_mim, s) = call_model E x_mim s;
            s = call_metric E test_acc_mim y y_pred_mim s;

            (x_cw, s) = call_attack E carlini_wagner_l2 x []
                          [(''targeted'', HBool False), (''max_iterations'', HInt 50)] s;
            (y_pred_cw, s) = call_model E x_cw s;
            s = call_metric E test_acc_cw y y_pred_cw s;

            (x_cw_quantum, s) = call_attack E carlini_wagner_l2_quantum x []
                                  [(''targeted'', HBool False), (''max_iterations'', HInt 10)] s;
            (y_pred_cw_quantum, s) = call_model E x_cw_quantum s;
            s = call_metric E test_acc_cw_quantum y y_pred_cw_quantum s
        in emit (Progbar_add (shape0 E x) []) s)"

text \<open>Lines 97 to 130: the evaluation loop.\<close>

definition test_loop ::
  "('t, 'o, 'l, 'a) ext \<Rightarrow> FLAGS \<Rightarrow> 't dataset \<Rightarrow> ('t, 'o, 'l, 'a) state \<Rightarrow> ('t, 'o, 'l, 'a) state" where
  "test_loop E fl data s = foldl (test_batch E fl) (emit (Progbar_new 10000) s) (test data)"

text \<open>
  One \<open>print(fmt.format(m.result() * 100))\<close>: the event holds the format string and the
  tensor that is formatted into its field.
\<close>

definition print_acc ::
  "('t, 'o, 'l, 'a) ext \<Rightarrow> string \<Rightarrow> metric \<Rightarrow> ('t, 'o, 'l, 'a) state \<Rightarrow> ('t, 'o, 'l, 'a) state" where
  "print_acc E fmt m s =
     emit (Print fmt (tensor_mul E (SparseCategoricalAccuracy_result E (test_acc s m)) 100)) s"

text \<open>Lines 132 to 174: the eight prints.\<close>

definition print_results :: "('t, 'o, 'l, 'a) ext \<Rightarrow> ('t, 'o, 'l, 'a) state \<Rightarrow> ('t, 'o, 'l, 'a) state" where
  "print_results E s =
     (let s = print_acc E ''test acc on clean examples (%): {:.3f}'' test_acc_clean s;
          s = print_acc E ''test acc on FGM adversarial examples (%): {:.3f}'' test_acc_fgsm s;
          s = print_acc E ''test acc on PGD adversarial examples (%): {:.3f}'' test_acc_pgd s;
          s = print_acc E ''test acc on BIM adversarial examples (%): {:.3f}'' test_acc_bim s;
          s = print_acc E ''test acc on MEA adversarial examples (%): {:.3f}'' test_acc_mea s;
          s = print_acc E ''test acc on MIM adversarial examples (%): {:.3f}'' test_acc_mim s;
          s = print_acc E ''test acc on CW (original) adversarial examples (%): {:.3f}'' test_acc_cw s
      in print_acc E ''test acc on CW (quantum) adversarial examples (%): {:.3f}''
           test_acc_cw_quantum s)"

definition main ::
  "('t, 'o, 'l, 'a) ext \<Rightarrow> FLAGS \<Rightarrow> 't dataset \<Rightarrow> ('t, 'o, 'l, 'a) state" where
  "main E fl data =
     (let s = init_state E;
          s = train_loop E fl data s;
          s = test_loop E fl data s
      in print_results E s)"

subsection \<open>Reading a trace\<close>

text \<open>
  The projections of a trace the theorems below use: the attack calls with the batch
  each received, the attack calls with their hyperparameters, the inputs of the calls
  \<open>model(x)\<close>, the metric calls, the calls of \<open>train_step\<close>, the values of the trainable
  variables every call that reads the network saw, and the printed lines.
\<close>

definition attack_inputs :: "'t event list \<Rightarrow> (attack \<times> 't) list" where
  "attack_inputs tr =
     concat (map (\<lambda>e. case e of Attack_call a w x pos kw \<Rightarrow> [(a, x)] | _ \<Rightarrow> []) tr)"

definition attack_args :: "'t event list \<Rightarrow> (attack \<times> hyper list \<times> (string \<times> hyper) list) list" where
  "attack_args tr =
     concat (map (\<lambda>e. case e of Attack_call a w x pos kw \<Rightarrow> [(a, pos, kw)] | _ \<Rightarrow> []) tr)"

definition model_inputs :: "'t event list \<Rightarrow> 't list" where
  "model_inputs tr = concat (map (\<lambda>e. case e of Model_call w x \<Rightarrow> [x] | _ \<Rightarrow> []) tr)"

definition metric_calls :: "'t event list \<Rightarrow> (metric \<times> 't \<times> 't) list" where
  "metric_calls tr =
     concat (map (\<lambda>e. case e of Metric_call m y y_pred \<Rightarrow> [(m, y, y_pred)] | _ \<Rightarrow> []) tr)"

definition train_step_calls :: "'t event list \<Rightarrow> ('t \<times> 't) list" where
  "train_step_calls tr =
     concat (map (\<lambda>e. case e of Train_step_call w x y \<Rightarrow> [(x, y)] | _ \<Rightarrow> []) tr)"

definition variables_read :: "'t event list \<Rightarrow> 't list list" where
  "variables_read tr =
     concat (map (\<lambda>e. case e of Model_call w x \<Rightarrow> [w] | Attack_call a w x pos kw \<Rightarrow> [w]
                         | Train_step_call w x y \<Rightarrow> [w] | _ \<Rightarrow> []) tr)"

definition printed :: "'t event list \<Rightarrow> (string \<times> 't) list" where
  "printed tr = concat (map (\<lambda>e. case e of Print fmt v \<Rightarrow> [(fmt, v)] | _ \<Rightarrow> []) tr)"

text \<open>
  The calls of \<open>madry_et_al\<close> and \<open>momentum_iterative_method\<close> in a trace, as whole events:
  with the variables of the model and the batch they received.
\<close>

definition fixed_attack_calls :: "'t event list \<Rightarrow> 't event list" where
  "fixed_attack_calls tr =
     filter (\<lambda>e. case e of
                   Attack_call a w x pos kw \<Rightarrow> a = madry_et_al \<or> a = momentum_iterative_method
                 | _ \<Rightarrow> False) tr"

text \<open>
  Modelled from the spec: the parameter names of the positional hyperparameters of the
  attack functions, after \<open>model_fn\<close> and \<open>x\<close>. The attack functions are defined in
  \<open>cleverhans.tf2.attacks\<close>, which is not among the source files. The order is the one
  the script's own keyword calls (lines 110 to 118) and the help text of the \<open>eps\<close> flag
  (line 179) spell out: \<open>eps, norm\<close> for \<open>fast_gradient_method\<close> and
  \<open>eps, eps_iter, nb_iter, norm\<close> for the iterative attacks; the two Carlini-Wagner
  attacks take keywords only.
\<close>

definition positional_params :: "attack \<Rightarrow> string list" where
  "positional_params a =
     (case a of
        fast_gradient_method \<Rightarrow> [''eps'', ''norm'']
      | carlini_wagner_l2 \<Rightarrow> []
      | carlini_wagner_l2_quantum \<Rightarrow> []
      | _ \<Rightarrow> [''eps'', ''eps_iter'', ''nb_iter'', ''norm''])"

text \<open>The hyperparameters of a call by name, as Python binds positional and keyword arguments.\<close>

definition bound_args ::
  "attack \<times> hyper list \<times> (string \<times> hyper) list \<Rightarrow> attack \<times> (string \<times> hyper) list" where
  "bound_args c = (case c of (a, pos, kw) \<Rightarrow> (a, zip (positional_params a) pos @ kw))"

definition norm_of :: "attack \<times> hyper list \<times> (string \<times> hyper) list \<Rightarrow> attack \<times> hyper option" where
  "norm_of c = (case bound_args c of (a, named) \<Rightarrow> (a, map_of named ''norm''))"

definition eps_of :: "attack \<times> hyper list \<times> (string \<times> hyper) list \<Rightarrow> attack \<times> hyper option" where
  "eps_of c = (case bound_args c of (a, named) \<Rightarrow> (a, map_of named ''eps''))"

subsection \<open>A small instance to evaluate the script on\<close>

text \<open>
  Tensors are integers: a layer adds the sum of the variables to its input, an attack
  returns the model's output on its input plus the number of hyperparameters it was given,
  an accuracy metric counts its calls and the mean metric keeps the values it was given.
\<close>

definition toy_ext :: "(int, nat, int list, nat) ext" where
  "toy_ext =
     \<lparr> initial_variables = [0],
       layer_call = (\<lambda>w l x. x + sum_list w),
       attack_fn = (\<lambda>a m x pos kw. m x + int (length pos) + int (length kw)),
       loss_call = (\<lambda>c y p. p - y),
       tape_gradient = (\<lambda>f w. map (\<lambda>v. f w) w),
       initial_slots = (\<lambda>c. 0),
       apply_gradients = (\<lambda>c n gv. (Suc n, map (\<lambda>(g, v). v - g) gv)),
       Mean_new = (\<lambda>name. []),
       Mean_call = (\<lambda>l v. l @ [v]),
       Mean_result = (\<lambda>l. sum_list l),
       SparseCategoricalAccuracy_new = 0,
       SparseCategoricalAccuracy_call = (\<lambda>n y p. Suc n),
       SparseCategoricalAccuracy_result = (\<lambda>n. int n),
       tensor_mul = (\<lambda>v k. v * k),
       shape0 = (\<lambda>x. 1) \<rparr>"

definition toy_data :: "int dataset" where
  "toy_data = \<lparr> train = (\<lambda>epoch. [(1, 0), (2, 1)]), test = [(3, 1), (4, 0)] \<rparr>"

section \<open>What one call, one pass and one loop add to the state\<close>

lemma emit_simps:
  "trace (emit e s) = trace s @ [e]"
  "variables (emit e s) = variables s"
  "slots (emit e s) = slots s"
  "train_loss (emit e s) = train_loss s"
  "test_acc (emit e s) = test_acc s"
  by (simp_all add: emit_def)

lemma call_model_simps:
  "fst (call_model E x s) = model_fn E (variables s) x"
  "snd (call_model E x s) = emit (Model_call (variables s) x) s"
  by (simp_all add: call_model_def)

lemma call_attack_simps:
  "fst (call_attack E a x pos kw s) = attack_fn E a (model_fn E (variables s)) x pos kw"
  "snd (call_attack E a x pos kw s) = emit (Attack_call a (variables s) x pos kw) s"
  by (simp_all add: call_attack_def)

lemma call_metric_simps:
  "trace (call_metric E m y p s) = trace s @ [Metric_call m y p]"
  "variables (call_metric E m y p s) = variables s"
  "slots (call_metric E m y p s) = slots s"
  "train_loss (call_metric E m y p s) = train_loss s"
  "test_acc (call_metric E m y p s) =
     (test_acc s)(m := SparseCategoricalAccuracy_call E (test_acc s m) y p)"
  by (simp_all add: call_metric_def emit_def)

lemmas step_simps = emit_simps call_model_simps call_attack_simps call_metric_simps

lemma test_batch_variables: "variables (test_batch E fl s b) = variables s"
  by (simp add: test_batch_def split_def Let_def step_simps)

lemma test_batch_slots: "slots (test_batch E fl s b) = slots s"
  by (simp add: test_batch_def split_def Let_def step_simps)

lemma test_batch_train_loss: "train_loss (test_batch E fl s b) = train_loss s"
  by (simp add: test_batch_def split_def Let_def step_simps)

lemma test_batch_trace:
  "trace (test_batch E fl s (x, y)) =
     trace s @
     (let w = variables s; m = model_fn E w;
          x_fgm = attack_fn E fast_gradient_method m x [HFloat (eps fl), HInf] [];
          x_pgd = attack_fn E projected_gradient_descent m x
                    [HFloat (eps fl), HFloat 0.01, HInt 40, HInf] [];
          x_bim = attack_fn E basic_iterative_method m x [HFloat (eps fl)]
                    [(''eps_iter'', HFloat 0.01), (''nb_iter'', HInt 40), (''norm'', HInt 2)];
          x_mea = attack_fn E madry_et_al m x []
                    [(''eps'', HFloat 0.01), (''eps_iter'', HFloat 0.01),
                     (''nb_iter'', HInt 40), (''norm'', HInf)];
          x_mim = attack_fn E momentum_iterative_method m x []
                    [(''eps'', HFloat 0.01), (''eps_iter'', HFloat 0.01),
                     (''nb_iter'', HInt 40), (''norm'', HInf)];
          x_cw = attack_fn E carlini_wagner_l2 m x []
                   [(''targeted'', HBool False), (''max_iterations'', HInt 50)];
          x_cw_quantum = attack_fn E carlini_wagner_l2_quantum m x []
                   [(''targeted'', HBool False), (''max_iterations'', HInt 10)]
      in [Model_call w x, Metric_call test_acc_clean y (m x),
          Attack_call fast_gradient_method w x [HFloat (eps fl), HInf] [],
          Model_call w x_fgm, Metric_call test_acc_fgsm y (m x_fgm),
          Attack_call projected_gradient_descent w x
            [HFloat (eps fl), HFloat 0.01, HInt 40, HInf] [],
          Model_call w x_pgd, Metric_call test_acc_pgd y (m x_pgd),
          Attack_call basic_iterative_method w x [HFloat (eps fl)]
            [(''eps_iter'', HFloat 0.01), (''nb_iter'', HInt 40), (''norm'', HInt 2)],
          Model_call w x_bim, Metric_call test_acc_bim y (m x_bim),
          Attack_call madry_et_al w x []
            [(''eps'', HFloat 0.01), (''eps_iter'', HFloat 0.01),
             (''nb_iter'', HInt 40), (''norm'', HInf)],
          Model_call w x_mea, Metric_call test_acc_mea y (m x_mea),
          Attack_call momentum_iterative_method w x []
            [(''eps'', HFloat 0.01), (''eps_iter'', HFloat 0.01),
             (''nb_iter'', HInt 40), (''norm'', HInf)],
          Model_call w x_mim, Metric_call test_acc_mim y (m x_mim),
          Attack_call carlini_wagner_l2 w x []
            [(''targeted'', HBool False), (''max_iterations'', HInt 50)],
          Model_call w x_cw, Metric_call test_acc_cw y (m x_cw),
          Attack_call carlini_wagner_l2_quantum w x []
            [(''targeted'', HBool False), (''max_iterations'', HInt 10)],
          Model_call w x_cw_quantum, Metric_call test_acc_cw_quantum y (m x_cw_quantum),
          Progbar_add (shape0 E x) []])"
  by (simp add: test_batch_def split_def Let_def step_simps)

lemma train_step_simps:
  "trace (train_step E x y s) = trace s @ [Train_step_call (variables s) x y]"
  "test_acc (train_step E x y s) = test_acc s"
  by (simp_all add: train_step_def split_def Let_def step_simps)

lemma train_batch_trace:
  "trace (train_batch E fl s (x, y)) =
     trace s @
     (if adv_train fl
      then (let x_adv = attack_fn E projected_gradient_descent (model_fn E (variables s)) x
                          [HFloat (eps fl), HFloat 0.01, HInt 40, HInf] [];
                s' = train_step E x_adv y
                       (emit (Attack_call projected_gradient_descent (variables s) x
                                [HFloat (eps fl), HFloat 0.01, HInt 40, HInf] []) s)
            in [Attack_call projected_gradient_descent (variables s) x
                  [HFloat (eps fl), HFloat 0.01, HInt 40, HInf] [],
                Train_step_call (variables s) x_adv y,
                Progbar_add (shape0 E x_adv) [(''loss'', Mean_result E (train_loss s'))]])
      else [Train_step_call (variables s) x y,
            Progbar_add (shape0 E x)
              [(''loss'', Mean_result E (train_loss (train_step E x y s)))]])"
  by (simp add: train_batch_def split_def Let_def step_simps train_step_simps)

lemma train_batch_test_acc: "test_acc (train_batch E fl s b) = test_acc s"
  by (simp add: train_batch_def split_def Let_def step_simps train_step_simps)

lemma foldl_projection:
  assumes "\<And>s b. p (f s b) = p s @ g b"
  shows "p (foldl f s bs) = p s @ concat (map g bs)"
  by (induction bs arbitrary: s) (simp_all add: assms)

lemma foldl_invariant:
  assumes "\<And>s b. p (f s b) = p s"
  shows "p (foldl f s bs) = p s"
  by (induction bs arbitrary: s) (simp_all add: assms)


lemma foldl_projection_inv:
  assumes "\<And>s b. v (f s b) = v s" and "\<And>s b. p (f s b) = p s @ g (v s) b"
  shows "p (foldl f s bs) = p s @ concat (map (g (v s)) bs)"
  by (induction bs arbitrary: s) (simp_all add: assms)

lemmas proj_defs = attack_inputs_def attack_args_def model_inputs_def metric_calls_def
  train_step_calls_def variables_read_def printed_def

lemma test_batch_attack_inputs:
  "attack_inputs (trace (test_batch E fl s b)) = attack_inputs (trace s) @
     [(fast_gradient_method, fst b), (projected_gradient_descent, fst b),
      (basic_iterative_method, fst b), (madry_et_al, fst b), (momentum_iterative_method, fst b),
      (carlini_wagner_l2, fst b), (carlini_wagner_l2_quantum, fst b)]"
  by (cases b) (simp add: test_batch_trace attack_inputs_def Let_def)

lemma test_batch_attack_args:
  "attack_args (trace (test_batch E fl s b)) = attack_args (trace s) @
     [(fast_gradient_method, [HFloat (eps fl), HInf], []),
      (projected_gradient_descent, [HFloat (eps fl), HFloat 0.01, HInt 40, HInf], []),
      (basic_iterative_method, [HFloat (eps fl)],
         [(''eps_iter'', HFloat 0.01), (''nb_iter'', HInt 40), (''norm'', HInt 2)]),
      (madry_et_al, [],
         [(''eps'', HFloat 0.01), (''eps_iter'', HFloat 0.01), (''nb_iter'', HInt 40),
          (''norm'', HInf)]),
      (momentum_iterative_method, [],
         [(''eps'', HFloat 0.01), (''eps_iter'', HFloat 0.01), (''nb_iter'', HInt 40),
          (''norm'', HInf)]),
      (carlini_wagner_l2, [], [(''targeted'', HBool False), (''max_iterations'', HInt 50)]),
      (carlini_wagner_l2_quantum, [],
         [(''targeted'', HBool False), (''max_iterations'', HInt 10)])]"
  by (cases b) (simp add: test_batch_trace attack_args_def Let_def)

lemma test_batch_metric_names:
  "map fst (metric_calls (trace (test_batch E fl s b))) = map fst (metric_calls (trace s)) @
     [test_acc_clean, test_acc_fgsm, test_acc_pgd, test_acc_bim, test_acc_mea, test_acc_mim,
      test_acc_cw, test_acc_cw_quantum]"
  by (cases b) (simp add: test_batch_trace metric_calls_def Let_def)

lemma test_batch_train_step_calls:
  "train_step_calls (trace (test_batch E fl s b)) = train_step_calls (trace s) @ []"
  by (cases b) (simp add: test_batch_trace train_step_calls_def Let_def)

lemma test_batch_printed:
  "printed (trace (test_batch E fl s b)) = printed (trace s) @ []"
  by (cases b) (simp add: test_batch_trace printed_def Let_def)

lemma test_batch_variables_read:
  "variables_read (trace (test_batch E fl s b)) =
     variables_read (trace s) @ replicate 15 (variables s)"
  by (cases b) (simp add: test_batch_trace variables_read_def Let_def numeral_eq_Suc)

lemma train_batch_attack_inputs:
  "attack_inputs (trace (train_batch E fl s b)) = attack_inputs (trace s) @
     (if adv_train fl then [(projected_gradient_descent, fst b)] else [])"
  by (cases b) (simp add: train_batch_trace attack_inputs_def Let_def)

lemma train_batch_attack_args:
  "attack_args (trace (train_batch E fl s b)) = attack_args (trace s) @
     (if adv_train fl
      then [(projected_gradient_descent, [HFloat (eps fl), HFloat 0.01, HInt 40, HInf], [])]
      else [])"
  by (cases b) (simp add: train_batch_trace attack_args_def Let_def)

lemma train_batch_model_inputs:
  "model_inputs (trace (train_batch E fl s b)) = model_inputs (trace s) @ []"
  by (cases b) (simp add: train_batch_trace model_inputs_def Let_def)

lemma train_batch_metric_calls:
  "metric_calls (trace (train_batch E fl s b)) = metric_calls (trace s) @ []"
  by (cases b) (simp add: train_batch_trace metric_calls_def Let_def)

lemma train_batch_printed:
  "printed (trace (train_batch E fl s b)) = printed (trace s) @ []"
  by (cases b) (simp add: train_batch_trace printed_def Let_def)

lemma train_batch_labels:
  "map snd (train_step_calls (trace (train_batch E fl s b))) =
     map snd (train_step_calls (trace s)) @ [snd b]"
  by (cases b) (simp add: train_batch_trace train_step_calls_def Let_def)

text \<open>Loops: a projection of the trace after a loop, from what one pass of the body appends.\<close>

lemma train_loop_projection:
  fixes E :: "('t, 'o, 'l, 'a) ext"
  assumes body: "\<And>s b. p (trace (train_batch E fl s b)) = p (trace s) @ g b"
    and new: "\<And>s :: ('t, 'o, 'l, 'a) state. p (trace (emit (Progbar_new 60000) s)) = p (trace s)"
  shows "p (trace (train_loop E fl data s)) =
           p (trace s) @ concat (map g (concat (map (train data) [0..<nat (nb_epochs fl)])))"
proof -
  have epoch: "p (trace (train_epoch E fl data s e)) = p (trace s) @ concat (map g (train data e))"
    for s e
    unfolding train_epoch_def
    using foldl_projection [where p = "\<lambda>s. p (trace s)" and f = "train_batch E fl" and g = g, OF body]
    by (simp add: new)
  have flat: "concat (map (\<lambda>e. concat (map g (train data e))) es) =
                concat (map g (concat (map (train data) es)))" for es
    by (induction es) simp_all
  show ?thesis
    unfolding train_loop_def
    using foldl_projection [where p = "\<lambda>s. p (trace s)" and f = "train_epoch E fl data"
        and g = "\<lambda>e. concat (map g (train data e))", OF epoch]
    by (simp only: flat)
qed

lemma test_loop_projection:
  fixes E :: "('t, 'o, 'l, 'a) ext"
  assumes body: "\<And>s b. p (trace (test_batch E fl s b)) = p (trace s) @ g b"
    and new: "\<And>s :: ('t, 'o, 'l, 'a) state. p (trace (emit (Progbar_new 10000) s)) = p (trace s)"
  shows "p (trace (test_loop E fl data s)) = p (trace s) @ concat (map g (test data))"
  unfolding test_loop_def
  using foldl_projection [where p = "\<lambda>s. p (trace s)" and f = "test_batch E fl" and g = g, OF body]
  by (simp add: new)

lemma test_loop_variables: "variables (test_loop E fl data s) = variables s"
  unfolding test_loop_def
  using foldl_invariant [where p = variables and f = "test_batch E fl", OF test_batch_variables]
  by (simp add: emit_simps)

lemma test_loop_variables_read:
  "variables_read (trace (test_loop E fl data s)) =
     variables_read (trace s) @ replicate (15 * length (test data)) (variables s)"
proof -
  have "variables_read (trace (foldl (test_batch E fl) s0 bs)) =
          variables_read (trace s0) @ concat (map (\<lambda>b. replicate 15 (variables s0)) bs)"
    for s0 bs
    using foldl_projection_inv [where v = variables and p = "\<lambda>s. variables_read (trace s)"
        and f = "test_batch E fl" and g = "\<lambda>w b. replicate 15 w",
        OF test_batch_variables test_batch_variables_read] .
  moreover have "concat (map (\<lambda>b. replicate 15 w) bs) = replicate (15 * length bs) w"
    for w :: "'a list" and bs :: "('a \<times> 'a) list"
    by (induction bs) (simp_all add: replicate_add)
  ultimately show ?thesis
    by (simp add: test_loop_def emit_simps variables_read_def)
qed

text \<open>The prints, and the projections of the trace of each loop and of the whole run.\<close>

lemma print_acc_simps:
  "trace (print_acc E fmt m s) =
     trace s @ [Print fmt (tensor_mul E (SparseCategoricalAccuracy_result E (test_acc s m)) 100)]"
  "variables (print_acc E fmt m s) = variables s"
  "test_acc (print_acc E fmt m s) = test_acc s"
  by (simp_all add: print_acc_def emit_simps)

lemma print_results_trace:
  "trace (print_results E s) = trace s @
     map (\<lambda>(fmt, m). Print fmt (tensor_mul E (SparseCategoricalAccuracy_result E (test_acc s m)) 100))
       [(''test acc on clean examples (%): {:.3f}'', test_acc_clean),
        (''test acc on FGM adversarial examples (%): {:.3f}'', test_acc_fgsm),
        (''test acc on PGD adversarial examples (%): {:.3f}'', test_acc_pgd),
        (''test acc on BIM adversarial examples (%): {:.3f}'', test_acc_bim),
        (''test acc on MEA adversarial examples (%): {:.3f}'', test_acc_mea),
        (''test acc on MIM adversarial examples (%): {:.3f}'', test_acc_mim),
        (''test acc on CW (original) adversarial examples (%): {:.3f}'', test_acc_cw),
        (''test acc on CW (quantum) adversarial examples (%): {:.3f}'', test_acc_cw_quantum)]"
  by (simp add: print_results_def Let_def print_acc_simps)

lemma print_results_frame:
  "variables (print_results E s) = variables s"
  "test_acc (print_results E s) = test_acc s"
  by (simp_all add: print_results_def Let_def print_acc_simps)

lemma train_loop_printed:
  "printed (trace (train_loop E fl data s)) = printed (trace s)"
  using train_loop_projection [where p = printed and g = "\<lambda>b. []" and E = E and fl = fl
      and data = data and s = s, OF train_batch_printed]
  by (simp add: emit_simps printed_def)

lemma test_loop_printed:
  "printed (trace (test_loop E fl data s)) = printed (trace s)"
  using test_loop_projection [where p = printed and g = "\<lambda>b. []" and E = E and fl = fl
      and data = data and s = s, OF test_batch_printed]
  by (simp add: emit_simps printed_def)

lemma train_loop_metric_calls:
  "metric_calls (trace (train_loop E fl data s)) = metric_calls (trace s)"
  using train_loop_projection [where p = metric_calls and g = "\<lambda>b. []" and E = E and fl = fl
      and data = data and s = s, OF train_batch_metric_calls]
  by (simp add: emit_simps metric_calls_def)

lemma train_loop_model_inputs:
  "model_inputs (trace (train_loop E fl data s)) = model_inputs (trace s)"
  using train_loop_projection [where p = model_inputs and g = "\<lambda>b. []" and E = E and fl = fl
      and data = data and s = s, OF train_batch_model_inputs]
  by (simp add: emit_simps model_inputs_def)

lemma test_loop_metric_names:
  "map fst (metric_calls (trace (test_loop E fl data s))) =
     map fst (metric_calls (trace s)) @
     concat (map (\<lambda>b. [test_acc_clean, test_acc_fgsm, test_acc_pgd, test_acc_bim,
                        test_acc_mea, test_acc_mim, test_acc_cw, test_acc_cw_quantum])
               (test data))"
proof (rule test_loop_projection [where p = "\<lambda>tr. map fst (metric_calls tr)"])
  show "map fst (metric_calls (trace (emit (Progbar_new 10000) s0))) =
          map fst (metric_calls (trace s0))"
    for s0 :: "('a, 'b, 'c, 'd) state"
    by (simp add: emit_simps metric_calls_def)
qed (rule test_batch_metric_names)

lemma test_loop_attack_inputs:
  "attack_inputs (trace (test_loop E fl data s)) = attack_inputs (trace s) @
     concat (map (\<lambda>b. [(fast_gradient_method, fst b), (projected_gradient_descent, fst b),
                        (basic_iterative_method, fst b), (madry_et_al, fst b),
                        (momentum_iterative_method, fst b), (carlini_wagner_l2, fst b),
                        (carlini_wagner_l2_quantum, fst b)]) (test data))"
proof (rule test_loop_projection [where p = attack_inputs])
  show "attack_inputs (trace (emit (Progbar_new 10000) s0)) = attack_inputs (trace s0)"
    for s0 :: "('a, 'b, 'c, 'd) state"
    by (simp add: emit_simps attack_inputs_def)
qed (rule test_batch_attack_inputs)

lemma test_loop_train_step_calls:
  "train_step_calls (trace (test_loop E fl data s)) = train_step_calls (trace s)"
  using test_loop_projection [where p = train_step_calls and g = "\<lambda>b. []" and E = E and fl = fl
      and data = data and s = s, OF test_batch_train_step_calls]
  by (simp add: emit_simps train_step_calls_def)

lemma foldl_prefix:
  assumes "\<And>s b. take (length (trace s)) (trace (f s b)) = trace s"
  shows "take (length (trace s)) (trace (foldl f s bs)) = trace s"
proof (induction bs arbitrary: s)
  case Nil
  show ?case by simp
next
  case (Cons b bs)
  have 1: "take (length (trace (f s b))) (trace (foldl f (f s b) bs)) = trace (f s b)"
    by (rule Cons.IH)
  have 2: "take (length (trace s)) (trace (f s b)) = trace s"
    by (rule assms)
  have "length (trace s) \<le> length (trace (f s b))"
    by (metis 2 nat_le_linear take_all_iff length_take min.absorb2 min.cobounded1)
  then have "take (length (trace s)) (trace (foldl f (f s b) bs)) =
               take (length (trace s)) (take (length (trace (f s b))) (trace (foldl f (f s b) bs)))"
    by (simp add: min.absorb1)
  then show ?case
    by (simp add: 1 2)
qed

lemma test_loop_prefix:
  "take (length (trace s)) (trace (test_loop E fl data s)) = trace s"
proof -
  have "take (length (trace s0)) (trace (foldl (test_batch E fl) s0 bs)) = trace s0" for s0 bs
  proof (rule foldl_prefix)
    show "take (length (trace s1)) (trace (test_batch E fl s1 b)) = trace s1" for s1 b
      by (cases b) (simp add: test_batch_trace)
  qed
  from this [of "emit (Progbar_new 10000) s" "test data"]
  have "take (Suc (length (trace s))) (trace (test_loop E fl data s)) = trace s @ [Progbar_new 10000]"
    by (simp add: test_loop_def emit_simps)
  then have "take (length (trace s)) (take (Suc (length (trace s))) (trace (test_loop E fl data s)))
             = take (length (trace s)) (trace s @ [Progbar_new 10000])"
    by simp
  then show ?thesis
    by (simp add: min.absorb1)
qed


lemma suffix_projection:
  assumes "take (length tr) tr' = tr" and "\<And>a b. p (a @ b) = p a @ p b"
    and "p tr' = p tr @ X"
  shows "p (drop (length tr) tr') = X"
proof -
  have "tr' = tr @ drop (length tr) tr'"
    using assms(1) append_take_drop_id [of "length tr" tr'] by simp
  then have "p tr' = p tr @ p (drop (length tr) tr')"
    using assms(2) by metis
  with assms(3) show ?thesis by simp
qed

lemma proj_append:
  "attack_inputs (a @ b) = attack_inputs a @ attack_inputs b"
  "attack_args (a @ b) = attack_args a @ attack_args b"
  "model_inputs (a @ b) = model_inputs a @ model_inputs b"
  "metric_calls (a @ b) = metric_calls a @ metric_calls b"
  "train_step_calls (a @ b) = train_step_calls a @ train_step_calls b"
  "variables_read (a @ b) = variables_read a @ variables_read b"
  "printed (a @ b) = printed a @ printed b"
  by (simp_all add: proj_defs)

lemma init_state_trace: "trace (init_state E) = []"
  by (simp add: init_state_def)

lemma train_loop_attack_inputs:
  "attack_inputs (trace (train_loop E fl data s)) = attack_inputs (trace s) @
     concat (map (\<lambda>b. if adv_train fl then [(projected_gradient_descent, fst b)] else [])
               (concat (map (train data) [0..<nat (nb_epochs fl)])))"
proof (rule train_loop_projection [where p = attack_inputs])
  show "attack_inputs (trace (emit (Progbar_new 60000) s0)) = attack_inputs (trace s0)"
    for s0 :: "('a, 'b, 'c, 'd) state"
    by (simp add: emit_simps attack_inputs_def)
qed (rule train_batch_attack_inputs)

lemma train_loop_attack_args:
  "attack_args (trace (train_loop E fl data s)) = attack_args (trace s) @
     concat (map (\<lambda>b. if adv_train fl
                       then [(projected_gradient_descent,
                              [HFloat (eps fl), HFloat 0.01, HInt 40, HInf], [])]
                       else [])
               (concat (map (train data) [0..<nat (nb_epochs fl)])))"
proof (rule train_loop_projection [where p = attack_args])
  show "attack_args (trace (emit (Progbar_new 60000) s0)) = attack_args (trace s0)"
    for s0 :: "('a, 'b, 'c, 'd) state"
    by (simp add: emit_simps attack_args_def)
qed (rule train_batch_attack_args)

lemma train_loop_labels:
  "map snd (train_step_calls (trace (train_loop E fl data s))) =
     map snd (train_step_calls (trace s)) @
     map snd (concat (map (train data) [0..<nat (nb_epochs fl)]))"
proof -
  have "map snd (train_step_calls (trace (train_loop E fl data s))) =
     map snd (train_step_calls (trace s)) @
     concat (map (\<lambda>b. [snd b]) (concat (map (train data) [0..<nat (nb_epochs fl)])))"
  proof (rule train_loop_projection [where p = "\<lambda>tr. map snd (train_step_calls tr)"])
    show "map snd (train_step_calls (trace (emit (Progbar_new 60000) s0))) =
            map snd (train_step_calls (trace s0))"
      for s0 :: "('a, 'b, 'c, 'd) state"
      by (simp add: emit_simps train_step_calls_def)
  qed (rule train_batch_labels)
  moreover have "concat (map (\<lambda>b. [snd b]) bs) = map snd bs" for bs :: "('a \<times> 'a) list"
    by (induction bs) simp_all
  ultimately show ?thesis by simp
qed

lemma test_loop_attack_args:
  "attack_args (trace (test_loop E fl data s)) = attack_args (trace s) @
     concat (map (\<lambda>b.
     [(fast_gradient_method, [HFloat (eps fl), HInf], []),
      (projected_gradient_descent, [HFloat (eps fl), HFloat 0.01, HInt 40, HInf], []),
      (basic_iterative_method, [HFloat (eps fl)],
         [(''eps_iter'', HFloat 0.01), (''nb_iter'', HInt 40), (''norm'', HInt 2)]),
      (madry_et_al, [],
         [(''eps'', HFloat 0.01), (''eps_iter'', HFloat 0.01), (''nb_iter'', HInt 40),
          (''norm'', HInf)]),
      (momentum_iterative_method, [],
         [(''eps'', HFloat 0.01), (''eps_iter'', HFloat 0.01), (''nb_iter'', HInt 40),
          (''norm'', HInf)]),
      (carlini_wagner_l2, [], [(''targeted'', HBool False), (''max_iterations'', HInt 50)]),
      (carlini_wagner_l2_quantum, [],
         [(''targeted'', HBool False), (''max_iterations'', HInt 10)])]) (test data))"
proof (rule test_loop_projection [where p = attack_args])
  show "attack_args (trace (emit (Progbar_new 10000) s0)) = attack_args (trace s0)"
    for s0 :: "('a, 'b, 'c, 'd) state"
    by (simp add: emit_simps attack_args_def)
qed (rule test_batch_attack_args)

lemma main_unfold:
  "main E fl data = print_results E (test_loop E fl data (train_loop E fl data (init_state E)))"
  by (simp add: main_def Let_def)

lemma main_attack_args:
  "attack_args (trace (main E fl data)) =
     concat (map (\<lambda>b. if adv_train fl
                       then [(projected_gradient_descent,
                              [HFloat (eps fl), HFloat 0.01, HInt 40, HInf], [])]
                       else [])
               (concat (map (train data) [0..<nat (nb_epochs fl)]))) @
     concat (map (\<lambda>b.
     [(fast_gradient_method, [HFloat (eps fl), HInf], []),
      (projected_gradient_descent, [HFloat (eps fl), HFloat 0.01, HInt 40, HInf], []),
      (basic_iterative_method, [HFloat (eps fl)],
         [(''eps_iter'', HFloat 0.01), (''nb_iter'', HInt 40), (''norm'', HInt 2)]),
      (madry_et_al, [],
         [(''eps'', HFloat 0.01), (''eps_iter'', HFloat 0.01), (''nb_iter'', HInt 40),
          (''norm'', HInf)]),
      (momentum_iterative_method, [],
         [(''eps'', HFloat 0.01), (''eps_iter'', HFloat 0.01), (''nb_iter'', HInt 40),
          (''norm'', HInf)]),
      (carlini_wagner_l2, [], [(''targeted'', HBool False), (''max_iterations'', HInt 50)]),
      (carlini_wagner_l2_quantum, [],
         [(''targeted'', HBool False), (''max_iterations'', HInt 10)])]) (test data))"
  by (simp add: main_unfold print_results_trace proj_append test_loop_attack_args
        train_loop_attack_args init_state_trace)
     (simp add: attack_args_def)

lemma proj_Nil:
  "attack_inputs [] = []" "attack_args [] = []" "model_inputs [] = []" "metric_calls [] = []"
  "train_step_calls [] = []" "variables_read [] = []" "printed [] = []"
  by (simp_all add: proj_defs)

text \<open>Without adversarial training, the training loop does not read the \<open>eps\<close> flag.\<close>

lemma train_batch_no_adv:
  "train_batch E (fl\<lparr>eps := e, adv_train := False\<rparr>) = train_batch E (fl\<lparr>adv_train := False\<rparr>)"
  by (intro ext) (simp add: train_batch_def)

lemma train_loop_no_adv:
  "train_loop E (fl\<lparr>eps := e, adv_train := False\<rparr>) data s =
   train_loop E (fl\<lparr>adv_train := False\<rparr>) data s"
proof -
  have "train_epoch E (fl\<lparr>eps := e, adv_train := False\<rparr>) data =
        train_epoch E (fl\<lparr>adv_train := False\<rparr>) data"
    by (intro ext) (simp add: train_epoch_def train_batch_no_adv)
  then show ?thesis
    by (simp add: train_loop_def)
qed

lemma test_batch_fixed_attack_calls:
  "fixed_attack_calls (trace (test_batch E fl s b)) = fixed_attack_calls (trace s) @
     [Attack_call madry_et_al (variables s) (fst b) []
        [(''eps'', HFloat 0.01), (''eps_iter'', HFloat 0.01), (''nb_iter'', HInt 40),
         (''norm'', HInf)],
      Attack_call momentum_iterative_method (variables s) (fst b) []
        [(''eps'', HFloat 0.01), (''eps_iter'', HFloat 0.01), (''nb_iter'', HInt 40),
         (''norm'', HInf)]]"
  by (cases b) (simp add: test_batch_trace fixed_attack_calls_def Let_def)

lemma train_batch_fixed_attack_calls:
  "fixed_attack_calls (trace (train_batch E fl s b)) = fixed_attack_calls (trace s) @ []"
  by (cases b) (simp add: train_batch_trace fixed_attack_calls_def Let_def)

lemma train_loop_fixed_attack_calls:
  "fixed_attack_calls (trace (train_loop E fl data s)) = fixed_attack_calls (trace s)"
  using train_loop_projection [where p = fixed_attack_calls and g = "\<lambda>b. []" and E = E
      and fl = fl and data = data and s = s, OF train_batch_fixed_attack_calls]
  by (simp add: emit_simps fixed_attack_calls_def)

lemma test_loop_fixed_attack_calls:
  "fixed_attack_calls (trace (test_loop E fl data s)) = fixed_attack_calls (trace s) @
     concat (map (\<lambda>b.
       [Attack_call madry_et_al (variables s) (fst b) []
          [(''eps'', HFloat 0.01), (''eps_iter'', HFloat 0.01), (''nb_iter'', HInt 40),
           (''norm'', HInf)],
        Attack_call momentum_iterative_method (variables s) (fst b) []
          [(''eps'', HFloat 0.01), (''eps_iter'', HFloat 0.01), (''nb_iter'', HInt 40),
           (''norm'', HInf)]]) (test data))"
proof -
  have "fixed_attack_calls (trace (foldl (test_batch E fl) s0 bs)) =
          fixed_attack_calls (trace s0) @ concat (map (\<lambda>b.
       [Attack_call madry_et_al (variables s0) (fst b) []
          [(''eps'', HFloat 0.01), (''eps_iter'', HFloat 0.01), (''nb_iter'', HInt 40),
           (''norm'', HInf)],
        Attack_call momentum_iterative_method (variables s0) (fst b) []
          [(''eps'', HFloat 0.01), (''eps_iter'', HFloat 0.01), (''nb_iter'', HInt 40),
           (''norm'', HInf)]]) bs)"
    for s0 bs
    using foldl_projection_inv [where v = variables and p = "\<lambda>s. fixed_attack_calls (trace s)"
        and f = "test_batch E fl" and g = "\<lambda>w b.
       [Attack_call madry_et_al w (fst b) []
          [(''eps'', HFloat 0.01), (''eps_iter'', HFloat 0.01), (''nb_iter'', HInt 40),
           (''norm'', HInf)],
        Attack_call momentum_iterative_method w (fst b) []
          [(''eps'', HFloat 0.01), (''eps_iter'', HFloat 0.01), (''nb_iter'', HInt 40),
           (''norm'', HInf)]]",
        OF test_batch_variables test_batch_fixed_attack_calls] .
  then show ?thesis
    by (simp add: test_loop_def emit_simps fixed_attack_calls_def)
qed

lemma main_fixed_attack_calls:
  "fixed_attack_calls (trace (main E fl data)) =
     concat (map (\<lambda>b.
       [Attack_call madry_et_al (variables (train_loop E fl data (init_state E))) (fst b) []
          [(''eps'', HFloat 0.01), (''eps_iter'', HFloat 0.01), (''nb_iter'', HInt 40),
           (''norm'', HInf)],
        Attack_call momentum_iterative_method (variables (train_loop E fl data (init_state E)))
          (fst b) []
          [(''eps'', HFloat 0.01), (''eps_iter'', HFloat 0.01), (''nb_iter'', HInt 40),
           (''norm'', HInf)]]) (test data))"
proof -
  have app: "fixed_attack_calls (a @ b) = fixed_attack_calls a @ fixed_attack_calls b"
    for a b :: "'a event list"
    by (simp add: fixed_attack_calls_def)
  show ?thesis
    by (simp add: main_unfold print_results_trace app test_loop_fixed_attack_calls
          train_loop_fixed_attack_calls init_state_trace)
       (simp add: fixed_attack_calls_def)
qed



text \<open>What a pass over one test batch, the evaluation loop and the run do to the metrics.\<close>

lemma test_batch_seven_attacks:
  "(let w = variables s; m = model_fn E w;
        s' = test_batch E fl s (x, y);
        x_fgm = attack_fn E fast_gradient_method m x [HFloat (eps fl), HInf] [];
        x_pgd = attack_fn E projected_gradient_descent m x
                  [HFloat (eps fl), HFloat 0.01, HInt 40, HInf] [];
        x_bim = attack_fn E basic_iterative_method m x [HFloat (eps fl)]
                  [(''eps_iter'', HFloat 0.01), (''nb_iter'', HInt 40), (''norm'', HInt 2)];
        x_mea = attack_fn E madry_et_al m x []
                  [(''eps'', HFloat 0.01), (''eps_iter'', HFloat 0.01),
                   (''nb_iter'', HInt 40), (''norm'', HInf)];
        x_mim = attack_fn E momentum_iterative_method m x []
                  [(''eps'', HFloat 0.01), (''eps_iter'', HFloat 0.01),
                   (''nb_iter'', HInt 40), (''norm'', HInf)];
        x_cw = attack_fn E carlini_wagner_l2 m x []
                 [(''targeted'', HBool False), (''max_iterations'', HInt 50)];
        x_cw_quantum = attack_fn E carlini_wagner_l2_quantum m x []
                 [(''targeted'', HBool False), (''max_iterations'', HInt 10)]
    in attack_inputs (trace s') = attack_inputs (trace s) @
         [(fast_gradient_method, x), (projected_gradient_descent, x),
          (basic_iterative_method, x), (madry_et_al, x), (momentum_iterative_method, x),
          (carlini_wagner_l2, x), (carlini_wagner_l2_quantum, x)]
     \<and> model_inputs (trace s') = model_inputs (trace s) @
         [x, x_fgm, x_pgd, x_bim, x_mea, x_mim, x_cw, x_cw_quantum]
     \<and> metric_calls (trace s') = metric_calls (trace s) @
         [(test_acc_clean, y, m x), (test_acc_fgsm, y, m x_fgm), (test_acc_pgd, y, m x_pgd),
          (test_acc_bim, y, m x_bim), (test_acc_mea, y, m x_mea), (test_acc_mim, y, m x_mim),
          (test_acc_cw, y, m x_cw), (test_acc_cw_quantum, y, m x_cw_quantum)]
     \<and> test_acc s' =
         (\<lambda>acc. SparseCategoricalAccuracy_call E (test_acc s acc) y
            (m (case acc of
                  test_acc_clean \<Rightarrow> x | test_acc_fgsm \<Rightarrow> x_fgm | test_acc_pgd \<Rightarrow> x_pgd
                | test_acc_bim \<Rightarrow> x_bim | test_acc_mea \<Rightarrow> x_mea | test_acc_mim \<Rightarrow> x_mim
                | test_acc_cw \<Rightarrow> x_cw | test_acc_cw_quantum \<Rightarrow> x_cw_quantum))))
   \<and> attack_inputs (trace (test_loop E fl data s)) = attack_inputs (trace s) @
       concat (map (\<lambda>b. [(fast_gradient_method, fst b), (projected_gradient_descent, fst b),
                          (basic_iterative_method, fst b), (madry_et_al, fst b),
                          (momentum_iterative_method, fst b), (carlini_wagner_l2, fst b),
                          (carlini_wagner_l2_quantum, fst b)]) (test data))
   \<and> map fst (metric_calls (trace (test_loop E fl data s))) =
       map fst (metric_calls (trace s)) @
       concat (map (\<lambda>b. [test_acc_clean, test_acc_fgsm, test_acc_pgd, test_acc_bim,
                          test_acc_mea, test_acc_mim, test_acc_cw, test_acc_cw_quantum])
                 (test data))"
proof -
  have acc: "test_acc (test_batch E fl s (x, y)) =
      (\<lambda>acc. SparseCategoricalAccuracy_call E (test_acc s acc) y
         (model_fn E (variables s)
           (case acc of
              test_acc_clean \<Rightarrow> x
            | test_acc_fgsm \<Rightarrow>
                attack_fn E fast_gradient_method (model_fn E (variables s)) x
                  [HFloat (eps fl), HInf] []
            | test_acc_pgd \<Rightarrow>
                attack_fn E projected_gradient_descent (model_fn E (variables s)) x
                  [HFloat (eps fl), HFloat 0.01, HInt 40, HInf] []
            | test_acc_bim \<Rightarrow>
                attack_fn E basic_iterative_method (model_fn E (variables s)) x [HFloat (eps fl)]
                  [(''eps_iter'', HFloat 0.01), (''nb_iter'', HInt 40), (''norm'', HInt 2)]
            | test_acc_mea \<Rightarrow>
                attack_fn E madry_et_al (model_fn E (variables s)) x []
                  [(''eps'', HFloat 0.01), (''eps_iter'', HFloat 0.01),
                   (''nb_iter'', HInt 40), (''norm'', HInf)]
            | test_acc_mim \<Rightarrow>
                attack_fn E momentum_iterative_method (model_fn E (variables s)) x []
                  [(''eps'', HFloat 0.01), (''eps_iter'', HFloat 0.01),
                   (''nb_iter'', HInt 40), (''norm'', HInf)]
            | test_acc_cw \<Rightarrow>
                attack_fn E carlini_wagner_l2 (model_fn E (variables s)) x []
                  [(''targeted'', HBool False), (''max_iterations'', HInt 50)]
            | test_acc_cw_quantum \<Rightarrow>
                attack_fn E carlini_wagner_l2_quantum (model_fn E (variables s)) x []
                  [(''targeted'', HBool False), (''max_iterations'', HInt 10)])))"
    (is "?lhs = ?rhs")
  proof
    fix acc
    show "?lhs acc = ?rhs acc"
      by (cases acc) (simp_all add: test_batch_def split_def Let_def step_simps)
  qed
  have batch1: "attack_inputs (trace (test_batch E fl s (x, y))) = attack_inputs (trace s) @
         [(fast_gradient_method, x), (projected_gradient_descent, x),
          (basic_iterative_method, x), (madry_et_al, x), (momentum_iterative_method, x),
          (carlini_wagner_l2, x), (carlini_wagner_l2_quantum, x)]"
    using test_batch_attack_inputs [of E fl s "(x, y)"] by simp
  have batch2: "model_inputs (trace (test_batch E fl s (x, y))) = model_inputs (trace s) @
      (let m = model_fn E (variables s) in
         [x, attack_fn E fast_gradient_method m x [HFloat (eps fl), HInf] [],
          attack_fn E projected_gradient_descent m x
            [HFloat (eps fl), HFloat 0.01, HInt 40, HInf] [],
          attack_fn E basic_iterative_method m x [HFloat (eps fl)]
            [(''eps_iter'', HFloat 0.01), (''nb_iter'', HInt 40), (''norm'', HInt 2)],
          attack_fn E madry_et_al m x []
            [(''eps'', HFloat 0.01), (''eps_iter'', HFloat 0.01),
             (''nb_iter'', HInt 40), (''norm'', HInf)],
          attack_fn E momentum_iterative_method m x []
            [(''eps'', HFloat 0.01), (''eps_iter'', HFloat 0.01),
             (''nb_iter'', HInt 40), (''norm'', HInf)],
          attack_fn E carlini_wagner_l2 m x []
            [(''targeted'', HBool False), (''max_iterations'', HInt 50)],
          attack_fn E carlini_wagner_l2_quantum m x []
            [(''targeted'', HBool False), (''max_iterations'', HInt 10)]])"
    by (simp add: test_batch_trace model_inputs_def Let_def)
  have batch3: "metric_calls (trace (test_batch E fl s (x, y))) = metric_calls (trace s) @
      (let m = model_fn E (variables s) in
         [(test_acc_clean, y, m x),
          (test_acc_fgsm, y, m (attack_fn E fast_gradient_method m x [HFloat (eps fl), HInf] [])),
          (test_acc_pgd, y, m (attack_fn E projected_gradient_descent m x
            [HFloat (eps fl), HFloat 0.01, HInt 40, HInf] [])),
          (test_acc_bim, y, m (attack_fn E basic_iterative_method m x [HFloat (eps fl)]
            [(''eps_iter'', HFloat 0.01), (''nb_iter'', HInt 40), (''norm'', HInt 2)])),
          (test_acc_mea, y, m (attack_fn E madry_et_al m x []
            [(''eps'', HFloat 0.01), (''eps_iter'', HFloat 0.01),
             (''nb_iter'', HInt 40), (''norm'', HInf)])),
          (test_acc_mim, y, m (attack_fn E momentum_iterative_method m x []
            [(''eps'', HFloat 0.01), (''eps_iter'', HFloat 0.01),
             (''nb_iter'', HInt 40), (''norm'', HInf)])),
          (test_acc_cw, y, m (attack_fn E carlini_wagner_l2 m x []
            [(''targeted'', HBool False), (''max_iterations'', HInt 50)])),
          (test_acc_cw_quantum, y, m (attack_fn E carlini_wagner_l2_quantum m x []
            [(''targeted'', HBool False), (''max_iterations'', HInt 10)]))])"
    by (simp add: test_batch_trace metric_calls_def Let_def)
  have loop1: "attack_inputs (trace (test_loop E fl data s)) = attack_inputs (trace s) @
       concat (map (\<lambda>b. [(fast_gradient_method, fst b), (projected_gradient_descent, fst b),
                          (basic_iterative_method, fst b), (madry_et_al, fst b),
                          (momentum_iterative_method, fst b), (carlini_wagner_l2, fst b),
                          (carlini_wagner_l2_quantum, fst b)]) (test data))"
  proof (rule test_loop_projection [where p = attack_inputs])
    show "attack_inputs (trace (emit (Progbar_new 10000) s0)) = attack_inputs (trace s0)"
      for s0 :: "('a, 'b, 'c, 'd) state"
      by (simp add: emit_simps attack_inputs_def)
  qed (rule test_batch_attack_inputs)
  have loop2: "map fst (metric_calls (trace (test_loop E fl data s))) =
       map fst (metric_calls (trace s)) @
       concat (map (\<lambda>b. [test_acc_clean, test_acc_fgsm, test_acc_pgd, test_acc_bim,
                          test_acc_mea, test_acc_mim, test_acc_cw, test_acc_cw_quantum])
                 (test data))"
  proof (rule test_loop_projection [where p = "\<lambda>tr. map fst (metric_calls tr)"])
    show "map fst (metric_calls (trace (emit (Progbar_new 10000) s0))) =
            map fst (metric_calls (trace s0))"
      for s0 :: "('a, 'b, 'c, 'd) state"
      by (simp add: emit_simps metric_calls_def)
  qed (rule test_batch_metric_names)
  show ?thesis
    unfolding Let_def
    using acc batch1 batch2 batch3 loop1 loop2
    by (simp add: Let_def)
qed

lemma foldl_state:
  assumes "\<And>s b. v (f s b) = v s" and "\<And>s b. q (f s b) = h (v s) (q s) b"
  shows "q (foldl f s bs) = foldl (h (v s)) (q s) bs"
  by (induction bs arbitrary: s) (simp_all add: assms)

lemma train_loop_test_acc: "test_acc (train_loop E fl data s) = test_acc s"
proof -
  have epoch: "test_acc (train_epoch E fl data s0 e) = test_acc s0" for s0 e
    unfolding train_epoch_def
    using foldl_invariant [where p = test_acc and f = "train_batch E fl", OF train_batch_test_acc]
    by (simp add: emit_simps)
  show ?thesis
    unfolding train_loop_def
    using foldl_invariant [where p = test_acc and f = "train_epoch E fl data", OF epoch] .
qed

lemma test_loop_metrics_updated:
  "(let w = variables s; m = model_fn E w;
        adversarial = (\<lambda>acc x. case acc of
            test_acc_clean \<Rightarrow> x
          | test_acc_fgsm \<Rightarrow> attack_fn E fast_gradient_method m x [HFloat (eps fl), HInf] []
          | test_acc_pgd \<Rightarrow> attack_fn E projected_gradient_descent m x
                              [HFloat (eps fl), HFloat 0.01, HInt 40, HInf] []
          | test_acc_bim \<Rightarrow> attack_fn E basic_iterative_method m x [HFloat (eps fl)]
                              [(''eps_iter'', HFloat 0.01), (''nb_iter'', HInt 40),
                               (''norm'', HInt 2)]
          | test_acc_mea \<Rightarrow> attack_fn E madry_et_al m x []
                              [(''eps'', HFloat 0.01), (''eps_iter'', HFloat 0.01),
                               (''nb_iter'', HInt 40), (''norm'', HInf)]
          | test_acc_mim \<Rightarrow> attack_fn E momentum_iterative_method m x []
                              [(''eps'', HFloat 0.01), (''eps_iter'', HFloat 0.01),
                               (''nb_iter'', HInt 40), (''norm'', HInf)]
          | test_acc_cw \<Rightarrow> attack_fn E carlini_wagner_l2 m x []
                             [(''targeted'', HBool False), (''max_iterations'', HInt 50)]
          | test_acc_cw_quantum \<Rightarrow> attack_fn E carlini_wagner_l2_quantum m x []
                             [(''targeted'', HBool False), (''max_iterations'', HInt 10)]);
        metrics = [test_acc_clean, test_acc_fgsm, test_acc_pgd, test_acc_bim, test_acc_mea,
                   test_acc_mim, test_acc_cw, test_acc_cw_quantum];
        tested = test_loop E fl data s
    in model_inputs (trace tested) = model_inputs (trace s) @
         concat (map (\<lambda>b. map (\<lambda>acc. adversarial acc (fst b)) metrics) (test data))
     \<and> metric_calls (trace tested) = metric_calls (trace s) @
         concat (map (\<lambda>b. map (\<lambda>acc. (acc, snd b, m (adversarial acc (fst b)))) metrics)
                   (test data))
     \<and> test_acc tested =
         foldl (\<lambda>accs b acc. SparseCategoricalAccuracy_call E (accs acc) (snd b)
                                (m (adversarial acc (fst b))))
           (test_acc s) (test data)
     \<and> variables tested = w)"
proof -
  define adv where "adv = (\<lambda>w acc x. case acc of
            test_acc_clean \<Rightarrow> x
          | test_acc_fgsm \<Rightarrow> attack_fn E fast_gradient_method (model_fn E w) x
                               [HFloat (eps fl), HInf] []
          | test_acc_pgd \<Rightarrow> attack_fn E projected_gradient_descent (model_fn E w) x
                              [HFloat (eps fl), HFloat 0.01, HInt 40, HInf] []
          | test_acc_bim \<Rightarrow> attack_fn E basic_iterative_method (model_fn E w) x [HFloat (eps fl)]
                              [(''eps_iter'', HFloat 0.01), (''nb_iter'', HInt 40),
                               (''norm'', HInt 2)]
          | test_acc_mea \<Rightarrow> attack_fn E madry_et_al (model_fn E w) x []
                              [(''eps'', HFloat 0.01), (''eps_iter'', HFloat 0.01),
                               (''nb_iter'', HInt 40), (''norm'', HInf)]
          | test_acc_mim \<Rightarrow> attack_fn E momentum_iterative_method (model_fn E w) x []
                              [(''eps'', HFloat 0.01), (''eps_iter'', HFloat 0.01),
                               (''nb_iter'', HInt 40), (''norm'', HInf)]
          | test_acc_cw \<Rightarrow> attack_fn E carlini_wagner_l2 (model_fn E w) x []
                             [(''targeted'', HBool False), (''max_iterations'', HInt 50)]
          | test_acc_cw_quantum \<Rightarrow> attack_fn E carlini_wagner_l2_quantum (model_fn E w) x []
                             [(''targeted'', HBool False), (''max_iterations'', HInt 10)])"
  define metrics where "metrics = [test_acc_clean, test_acc_fgsm, test_acc_pgd, test_acc_bim,
                   test_acc_mea, test_acc_mim, test_acc_cw, test_acc_cw_quantum]"
  have mi_b: "model_inputs (trace (test_batch E fl s0 b)) = model_inputs (trace s0) @
                (\<lambda>w b. map (\<lambda>acc. adv w acc (fst b)) metrics) (variables s0) b" for s0 b
    by (cases b) (simp add: test_batch_trace model_inputs_def Let_def adv_def metrics_def)
  have mc_b: "metric_calls (trace (test_batch E fl s0 b)) = metric_calls (trace s0) @
                (\<lambda>w b. map (\<lambda>acc. (acc, snd b, model_fn E w (adv w acc (fst b)))) metrics)
                  (variables s0) b" for s0 b
    by (cases b) (simp add: test_batch_trace metric_calls_def Let_def adv_def metrics_def)
  have acc_b: "test_acc (test_batch E fl s0 b) =
                (\<lambda>w accs b acc. SparseCategoricalAccuracy_call E (accs acc) (snd b)
                                   (model_fn E w (adv w acc (fst b))))
                  (variables s0) (test_acc s0) b" for s0 b
  proof
    fix acc
    show "test_acc (test_batch E fl s0 b) acc =
            (\<lambda>w accs b acc. SparseCategoricalAccuracy_call E (accs acc) (snd b)
                                   (model_fn E w (adv w acc (fst b))))
                  (variables s0) (test_acc s0) b acc"
      by (cases b; cases acc)
         (simp_all add: test_batch_def split_def Let_def step_simps adv_def)
  qed
  have mi: "model_inputs (trace (foldl (test_batch E fl) s0 bs)) = model_inputs (trace s0) @
              concat (map (\<lambda>b. map (\<lambda>acc. adv (variables s0) acc (fst b)) metrics) bs)" for s0 bs
    using foldl_projection_inv [where v = variables and p = "\<lambda>s. model_inputs (trace s)"
        and f = "test_batch E fl" and g = "\<lambda>w b. map (\<lambda>acc. adv w acc (fst b)) metrics",
        OF test_batch_variables mi_b] .
  have mc: "metric_calls (trace (foldl (test_batch E fl) s0 bs)) = metric_calls (trace s0) @
              concat (map (\<lambda>b. map (\<lambda>acc. (acc, snd b,
                 model_fn E (variables s0) (adv (variables s0) acc (fst b)))) metrics) bs)"
    for s0 bs
    using foldl_projection_inv [where v = variables and p = "\<lambda>s. metric_calls (trace s)"
        and f = "test_batch E fl"
        and g = "\<lambda>w b. map (\<lambda>acc. (acc, snd b, model_fn E w (adv w acc (fst b)))) metrics",
        OF test_batch_variables mc_b] .
  have acc: "test_acc (foldl (test_batch E fl) s0 bs) =
               foldl (\<lambda>accs b acc. SparseCategoricalAccuracy_call E (accs acc) (snd b)
                        (model_fn E (variables s0) (adv (variables s0) acc (fst b))))
                 (test_acc s0) bs" for s0 bs
    using foldl_state [where v = variables and q = test_acc and f = "test_batch E fl"
        and h = "\<lambda>w accs b acc. SparseCategoricalAccuracy_call E (accs acc) (snd b)
                                   (model_fn E w (adv w acc (fst b)))",
        OF test_batch_variables acc_b] .
  have "model_inputs (trace (test_loop E fl data s)) = model_inputs (trace s) @
          concat (map (\<lambda>b. map (\<lambda>acc. adv (variables s) acc (fst b)) metrics) (test data))"
    by (simp add: test_loop_def mi emit_simps proj_append) (simp add: model_inputs_def)
  moreover have "metric_calls (trace (test_loop E fl data s)) = metric_calls (trace s) @
          concat (map (\<lambda>b. map (\<lambda>acc. (acc, snd b,
                 model_fn E (variables s) (adv (variables s) acc (fst b)))) metrics) (test data))"
    by (simp add: test_loop_def mc emit_simps proj_append) (simp add: metric_calls_def)
  moreover have "test_acc (test_loop E fl data s) =
               foldl (\<lambda>accs b acc. SparseCategoricalAccuracy_call E (accs acc) (snd b)
                        (model_fn E (variables s) (adv (variables s) acc (fst b))))
                 (test_acc s) (test data)"
    by (simp add: test_loop_def acc emit_simps)
  ultimately show ?thesis
    unfolding Let_def adv_def metrics_def
    by (simp only: test_loop_variables simp_thms)
qed

lemma main_metrics:
  "test_acc (main E fl data) = test_acc (test_loop E fl data (train_loop E fl data (init_state E)))
   \<and> test_acc (train_loop E fl data (init_state E)) = (\<lambda>acc. SparseCategoricalAccuracy_new E)"
  by (simp add: main_unfold print_results_frame train_loop_test_acc init_state_def)

section \<open>The network\<close>

text \<open>
  C4. \<open>Net\<close> has exactly seven layers: three \<open>Conv2D\<close> layers, \<open>Dropout\<close>, \<open>Flatten\<close>, a
  \<open>Dense\<close> layer of 128 units with ReLU and a \<open>Dense\<close> layer of 10 units without
  activation. \<open>Net.call\<close> feeds its input through them once each, in this order, every
  layer receiving what the layer before it returned, and returns what the last layer
  returns.
\<close>

theorem Net_seven_layers_in_sequence:
  "Net_layers Net_init =
     [Conv2D 64 8 (2, 2) ''relu'' ''same'', Conv2D 128 6 (2, 2) ''relu'' ''valid'',
      Conv2D 128 5 (1, 1) ''relu'' ''valid'', Dropout 0.25, Flatten,
      Dense 128 (Some ''relu''), Dense 10 None]
   \<and> length (Net_layers Net_init) = 7
   \<and> Net_call lc Net_init x = foldl (\<lambda>a l. lc l a) x (Net_layers Net_init)
   \<and> Net_call lc Net_init x =
       lc (Dense 10 None) (foldl (\<lambda>a l. lc l a) x (butlast (Net_layers Net_init)))"
  by (simp add: Net_layers_def Net_init_def Net_call_def)

section \<open>The evaluation loop\<close>

text \<open>
  C1. One pass of the evaluation loop over a batch \<open>(x, y)\<close> calls exactly seven attack
  functions, each on \<open>x\<close>: \<open>fast_gradient_method\<close>, \<open>projected_gradient_descent\<close>,
  \<open>basic_iterative_method\<close>, \<open>madry_et_al\<close>, \<open>momentum_iterative_method\<close>,
  \<open>carlini_wagner_l2\<close> and \<open>carlini_wagner_l2_quantum\<close>. The model is run on \<open>x\<close> and on the
  output of each attack, and each of the eight predictions updates the accuracy metric
  of its own: \<open>test_acc_clean\<close> from the prediction on \<open>x\<close>, and one metric per attack.
  The evaluation loop does this for every batch of the test set, in order: with the
  variables \<open>w\<close> the loop starts from, its attack calls, the inputs of its model calls and
  its metric calls are those of the batches one after the other, and each metric after
  the loop is the metric before the loop updated once per test batch, with the labels of
  the batch and the model's prediction on the example of that metric (the batch itself
  for \<open>test_acc_clean\<close>, the attack's output for the others). In a run the metrics start
  fresh, training leaves them fresh, and the prints leave them as the loop made them.
\<close>

theorem evaluation_runs_seven_attacks_per_batch:
  "((let w = variables s; m = model_fn E w;
        s' = test_batch E fl s (x, y);
        x_fgm = attack_fn E fast_gradient_method m x [HFloat (eps fl), HInf] [];
        x_pgd = attack_fn E projected_gradient_descent m x
                  [HFloat (eps fl), HFloat 0.01, HInt 40, HInf] [];
        x_bim = attack_fn E basic_iterative_method m x [HFloat (eps fl)]
                  [(''eps_iter'', HFloat 0.01), (''nb_iter'', HInt 40), (''norm'', HInt 2)];
        x_mea = attack_fn E madry_et_al m x []
                  [(''eps'', HFloat 0.01), (''eps_iter'', HFloat 0.01),
                   (''nb_iter'', HInt 40), (''norm'', HInf)];
        x_mim = attack_fn E momentum_iterative_method m x []
                  [(''eps'', HFloat 0.01), (''eps_iter'', HFloat 0.01),
                   (''nb_iter'', HInt 40), (''norm'', HInf)];
        x_cw = attack_fn E carlini_wagner_l2 m x []
                 [(''targeted'', HBool False), (''max_iterations'', HInt 50)];
        x_cw_quantum = attack_fn E carlini_wagner_l2_quantum m x []
                 [(''targeted'', HBool False), (''max_iterations'', HInt 10)]
    in attack_inputs (trace s') = attack_inputs (trace s) @
         [(fast_gradient_method, x), (projected_gradient_descent, x),
          (basic_iterative_method, x), (madry_et_al, x), (momentum_iterative_method, x),
          (carlini_wagner_l2, x), (carlini_wagner_l2_quantum, x)]
     \<and> model_inputs (trace s') = model_inputs (trace s) @
         [x, x_fgm, x_pgd, x_bim, x_mea, x_mim, x_cw, x_cw_quantum]
     \<and> metric_calls (trace s') = metric_calls (trace s) @
         [(test_acc_clean, y, m x), (test_acc_fgsm, y, m x_fgm), (test_acc_pgd, y, m x_pgd),
          (test_acc_bim, y, m x_bim), (test_acc_mea, y, m x_mea), (test_acc_mim, y, m x_mim),
          (test_acc_cw, y, m x_cw), (test_acc_cw_quantum, y, m x_cw_quantum)]
     \<and> test_acc s' =
         (\<lambda>acc. SparseCategoricalAccuracy_call E (test_acc s acc) y
            (m (case acc of
                  test_acc_clean \<Rightarrow> x | test_acc_fgsm \<Rightarrow> x_fgm | test_acc_pgd \<Rightarrow> x_pgd
                | test_acc_bim \<Rightarrow> x_bim | test_acc_mea \<Rightarrow> x_mea | test_acc_mim \<Rightarrow> x_mim
                | test_acc_cw \<Rightarrow> x_cw | test_acc_cw_quantum \<Rightarrow> x_cw_quantum))))
   \<and> attack_inputs (trace (test_loop E fl data s)) = attack_inputs (trace s) @
       concat (map (\<lambda>b. [(fast_gradient_method, fst b), (projected_gradient_descent, fst b),
                          (basic_iterative_method, fst b), (madry_et_al, fst b),
                          (momentum_iterative_method, fst b), (carlini_wagner_l2, fst b),
                          (carlini_wagner_l2_quantum, fst b)]) (test data))
   \<and> map fst (metric_calls (trace (test_loop E fl data s))) =
       map fst (metric_calls (trace s)) @
       concat (map (\<lambda>b. [test_acc_clean, test_acc_fgsm, test_acc_pgd, test_acc_bim,
                          test_acc_mea, test_acc_mim, test_acc_cw, test_acc_cw_quantum])
                 (test data)))
   \<and> (let w = variables s; m = model_fn E w;
        adversarial = (\<lambda>acc x. case acc of
            test_acc_clean \<Rightarrow> x
          | test_acc_fgsm \<Rightarrow> attack_fn E fast_gradient_method m x [HFloat (eps fl), HInf] []
          | test_acc_pgd \<Rightarrow> attack_fn E projected_gradient_descent m x
                              [HFloat (eps fl), HFloat 0.01, HInt 40, HInf] []
          | test_acc_bim \<Rightarrow> attack_fn E basic_iterative_method m x [HFloat (eps fl)]
                              [(''eps_iter'', HFloat 0.01), (''nb_iter'', HInt 40),
                               (''norm'', HInt 2)]
          | test_acc_mea \<Rightarrow> attack_fn E madry_et_al m x []
                              [(''eps'', HFloat 0.01), (''eps_iter'', HFloat 0.01),
                               (''nb_iter'', HInt 40), (''norm'', HInf)]
          | test_acc_mim \<Rightarrow> attack_fn E momentum_iterative_method m x []
                              [(''eps'', HFloat 0.01), (''eps_iter'', HFloat 0.01),
                               (''nb_iter'', HInt 40), (''norm'', HInf)]
          | test_acc_cw \<Rightarrow> attack_fn E carlini_wagner_l2 m x []
                             [(''targeted'', HBool False), (''max_iterations'', HInt 50)]
          | test_acc_cw_quantum \<Rightarrow> attack_fn E carlini_wagner_l2_quantum m x []
                             [(''targeted'', HBool False), (''max_iterations'', HInt 10)]);
        metrics = [test_acc_clean, test_acc_fgsm, test_acc_pgd, test_acc_bim, test_acc_mea,
                   test_acc_mim, test_acc_cw, test_acc_cw_quantum];
        tested = test_loop E fl data s
    in model_inputs (trace tested) = model_inputs (trace s) @
         concat (map (\<lambda>b. map (\<lambda>acc. adversarial acc (fst b)) metrics) (test data))
     \<and> metric_calls (trace tested) = metric_calls (trace s) @
         concat (map (\<lambda>b. map (\<lambda>acc. (acc, snd b, m (adversarial acc (fst b)))) metrics)
                   (test data))
     \<and> test_acc tested =
         foldl (\<lambda>accs b acc. SparseCategoricalAccuracy_call E (accs acc) (snd b)
                                (m (adversarial acc (fst b))))
           (test_acc s) (test data)
     \<and> variables tested = w)
   \<and> test_acc (main E fl data) = test_acc (test_loop E fl data (train_loop E fl data (init_state E)))
   \<and> test_acc (train_loop E fl data (init_state E)) = (\<lambda>acc. SparseCategoricalAccuracy_new E)"
proof -
  note batch = test_batch_seven_attacks [where s = s and E = E and fl = fl and x = x and y = y
      and data = data]
  note run = main_metrics [where E = E and fl = fl and data = data]
  show ?thesis
    by (intro conjI batch [THEN conjunct1] batch [THEN conjunct2, THEN conjunct1]
          batch [THEN conjunct2, THEN conjunct2] test_loop_metrics_updated
          run [THEN conjunct1] run [THEN conjunct2])
qed

text \<open>
  C10. Within one pass over a test batch \<open>(x, y)\<close> the first two calls are the model on
  \<open>x\<close> and the update of \<open>test_acc_clean\<close> with that prediction, and no attack has been
  called by then. All seven attacks receive \<open>x\<close> itself: the inputs of the model after the
  first are exactly the attacks' outputs on \<open>x\<close>, none is the output of an attack on another
  attack's output. The pass ends with the progress bar advanced by the size of \<open>x\<close>, and it
  leaves the trainable variables as they were: all fifteen calls that read the network see
  the same variables.
\<close>

theorem attacks_not_chained_clean_batch_kept:
  "(let w = variables s; m = model_fn E w;
        s' = test_batch E fl s (x, y);
        new = drop (length (trace s)) (trace s')
    in take (length (trace s)) (trace s') = trace s
     \<and> take 2 new = [Model_call w x, Metric_call test_acc_clean y (m x)]
     \<and> attack_inputs (take 2 new) = []
     \<and> map snd (attack_inputs new) = replicate 7 x
     \<and> model_inputs new =
         x # map (\<lambda>(a, pos, kw). attack_fn E a m x pos kw) (attack_args new)
     \<and> metric_calls new =
         map (\<lambda>(acc, xin). (acc, y, m xin))
           (zip [test_acc_clean, test_acc_fgsm, test_acc_pgd, test_acc_bim, test_acc_mea,
                 test_acc_mim, test_acc_cw, test_acc_cw_quantum] (model_inputs new))
     \<and> last new = Progbar_add (shape0 E x) []
     \<and> variables_read new = replicate 15 w
     \<and> variables s' = w)"
  by (simp add: test_batch_trace test_batch_variables proj_defs Let_def numeral_eq_Suc)

section \<open>The training loop\<close>


text \<open>
  C7. \<open>train_step(x, y)\<close> computes the sparse categorical cross-entropy (from logits) of
  \<open>model(x)\<close> against \<open>y\<close>, takes the gradient of that loss with respect to the trainable
  variables, applies one step of the Adam optimizer (learning rate 0.001) to the pairs of
  gradients and variables, and records the loss in the \<open>train_loss\<close> mean. It is one call in
  the trace and leaves the accuracy metrics alone.
\<close>

theorem train_step_one_gradient_update:
  "(let w = variables s;
        taped = (\<lambda>w'. loss_call E (SparseCategoricalCrossentropy True) y (model_fn E w' x));
        loss = taped w;
        gradients = tape_gradient E taped w;
        s' = train_step E x y s
    in (slots s', variables s') = apply_gradients E (Adam 0.001) (slots s) (zip gradients w)
     \<and> train_loss s' = Mean_call E (train_loss s) loss
     \<and> test_acc s' = test_acc s
     \<and> trace s' = trace s @ [Train_step_call w x y])"
  by (simp add: train_step_def loss_object_def optimizer_def split_def Let_def step_simps)

section \<open>The whole run\<close>

text \<open>
  C5. In a run of \<open>main\<close> the accuracy metrics are updated in the same order for every test
  batch (clean, FGM, PGD, BIM, madry_et_al, momentum-iterative, Carlini-Wagner L2,
  Carlini-Wagner L2 quantum), and so are the attacks called. After the evaluation loop,
  and nowhere before, the run prints eight lines in that same order; the value formatted
  into each line is the result of its metric after the loop, times 100.
\<close>

theorem evaluators_in_fixed_order_then_printed:
  "(let trained = train_loop E fl data (init_state E);
        tested = test_loop E fl data trained;
        final = main E fl data;
        percent = (\<lambda>acc. tensor_mul E (SparseCategoricalAccuracy_result E (test_acc tested acc)) 100)
    in trace final = trace tested @
         [Print ''test acc on clean examples (%): {:.3f}'' (percent test_acc_clean),
          Print ''test acc on FGM adversarial examples (%): {:.3f}'' (percent test_acc_fgsm),
          Print ''test acc on PGD adversarial examples (%): {:.3f}'' (percent test_acc_pgd),
          Print ''test acc on BIM adversarial examples (%): {:.3f}'' (percent test_acc_bim),
          Print ''test acc on MEA adversarial examples (%): {:.3f}'' (percent test_acc_mea),
          Print ''test acc on MIM adversarial examples (%): {:.3f}'' (percent test_acc_mim),
          Print ''test acc on CW (original) adversarial examples (%): {:.3f}''
            (percent test_acc_cw),
          Print ''test acc on CW (quantum) adversarial examples (%): {:.3f}''
            (percent test_acc_cw_quantum)]
     \<and> printed (trace tested) = []
     \<and> map snd (printed (trace final)) =
         map percent [test_acc_clean, test_acc_fgsm, test_acc_pgd, test_acc_bim, test_acc_mea,
                      test_acc_mim, test_acc_cw, test_acc_cw_quantum]
     \<and> test_acc final = test_acc tested
     \<and> map fst (metric_calls (trace final)) =
         concat (map (\<lambda>b. [test_acc_clean, test_acc_fgsm, test_acc_pgd, test_acc_bim,
                            test_acc_mea, test_acc_mim, test_acc_cw, test_acc_cw_quantum])
                   (test data))
     \<and> map fst (attack_inputs (trace final)) =
         map fst (attack_inputs (trace trained)) @
         concat (map (\<lambda>b. [fast_gradient_method, projected_gradient_descent,
                            basic_iterative_method, madry_et_al, momentum_iterative_method,
                            carlini_wagner_l2, carlini_wagner_l2_quantum]) (test data)))"
proof -
  have names: "map fst (concat (map (\<lambda>b. [(fast_gradient_method, fst b),
        (projected_gradient_descent, fst b), (basic_iterative_method, fst b),
        (madry_et_al, fst b), (momentum_iterative_method, fst b), (carlini_wagner_l2, fst b),
        (carlini_wagner_l2_quantum, fst b)]) bs)) =
      concat (map (\<lambda>b. [fast_gradient_method, projected_gradient_descent,
        basic_iterative_method, madry_et_al, momentum_iterative_method,
        carlini_wagner_l2, carlini_wagner_l2_quantum]) bs)" for bs :: "('a \<times> 'a) list"
    by (induction bs) simp_all
  have no_prints: "printed (trace (test_loop E fl data (train_loop E fl data (init_state E)))) = []"
    by (simp add: test_loop_printed train_loop_printed init_state_trace proj_Nil)
  have metrics: "map fst (metric_calls (trace (main E fl data))) =
      concat (map (\<lambda>b. [test_acc_clean, test_acc_fgsm, test_acc_pgd, test_acc_bim,
                         test_acc_mea, test_acc_mim, test_acc_cw, test_acc_cw_quantum])
                (test data))"
    by (simp add: main_unfold print_results_trace proj_append test_loop_metric_names
          train_loop_metric_calls init_state_trace)
       (simp add: metric_calls_def)
  have attacks: "map fst (attack_inputs (trace (main E fl data))) =
      map fst (attack_inputs (trace (train_loop E fl data (init_state E)))) @
      concat (map (\<lambda>b. [fast_gradient_method, projected_gradient_descent,
                         basic_iterative_method, madry_et_al, momentum_iterative_method,
                         carlini_wagner_l2, carlini_wagner_l2_quantum]) (test data))"
    by (simp add: main_unfold print_results_trace proj_append test_loop_attack_inputs names)
       (simp add: attack_inputs_def)
  have prints: "map snd (printed (trace (main E fl data))) =
      map (\<lambda>acc. tensor_mul E (SparseCategoricalAccuracy_result E
             (test_acc (test_loop E fl data (train_loop E fl data (init_state E))) acc)) 100)
        [test_acc_clean, test_acc_fgsm, test_acc_pgd, test_acc_bim, test_acc_mea,
         test_acc_mim, test_acc_cw, test_acc_cw_quantum]"
    by (simp add: main_unfold print_results_trace proj_append no_prints)
       (simp add: printed_def)
  show ?thesis
    unfolding Let_def
    using no_prints metrics attacks prints
    by (simp add: main_unfold print_results_trace print_results_frame)
qed

text \<open>
  C6. The trace of a run is the trace of the training loop followed by the evaluation.
  The training part holds one \<open>train_step\<close> call for every batch of every one of the
  \<open>nb_epochs\<close> passes over the training set, no call of the model on its own, no metric
  update and no print, and its attack calls (under \<open>adv_train\<close> only) are on training
  batches. The evaluation part holds no \<open>train_step\<close> call, its attacks are on the test
  batches, and every call in it that reads the network sees the variables as training
  left them, which are also the variables at the end of the run.
\<close>

theorem training_precedes_evaluation:
  "(let trained = train_loop E fl data (init_state E);
        final = main E fl data;
        evaluation = drop (length (trace trained)) (trace final);
        batches = concat (map (train data) [0..<nat (nb_epochs fl)])
    in trace final = trace trained @ evaluation
     \<and> map snd (train_step_calls (trace trained)) = map snd batches
     \<and> length (train_step_calls (trace trained)) = length batches
     \<and> model_inputs (trace trained) = []
     \<and> metric_calls (trace trained) = []
     \<and> printed (trace trained) = []
     \<and> map snd (attack_inputs (trace trained)) = (if adv_train fl then map fst batches else [])
     \<and> train_step_calls evaluation = []
     \<and> map snd (attack_inputs evaluation) = concat (map (\<lambda>b. replicate 7 (fst b)) (test data))
     \<and> variables_read evaluation = replicate (15 * length (test data)) (variables trained)
     \<and> variables final = variables trained)"
proof -
  define trained where "trained = train_loop E fl data (init_state E)"
  define tested where "tested = test_loop E fl data trained"
  define batches where "batches = concat (map (train data) [0..<nat (nb_epochs fl)])"
  define shown where "shown = drop (length (trace tested)) (trace (main E fl data))"
  have final: "trace (main E fl data) = trace tested @ shown"
    by (simp add: shown_def main_unfold print_results_trace tested_def trained_def)
  have shown: "train_step_calls shown = []" "attack_inputs shown = []" "variables_read shown = []"
    by (simp_all add: shown_def main_unfold print_results_trace tested_def trained_def proj_defs)
  have pre: "take (length (trace trained)) (trace tested) = trace trained"
    unfolding tested_def by (rule test_loop_prefix)
  have split: "trace tested = trace trained @ drop (length (trace trained)) (trace tested)"
    using pre append_take_drop_id [of "length (trace trained)" "trace tested"] by simp
  have le: "length (trace trained) \<le> length (trace tested)"
    using split by (metis le_add1 length_append)
  have ev: "drop (length (trace trained)) (trace (main E fl data)) =
              drop (length (trace trained)) (trace tested) @ shown"
    using le by (simp add: final)
  have whole: "trace (main E fl data) = trace trained @ drop (length (trace trained)) (trace (main E fl data))"
    using split ev final by simp
  have labels: "map snd (train_step_calls (trace trained)) = map snd batches"
    by (simp add: trained_def batches_def train_loop_labels init_state_trace proj_Nil)
  have count: "length (train_step_calls (trace trained)) = length batches"
    using labels by (metis length_map)
  have quiet: "model_inputs (trace trained) = []" "metric_calls (trace trained) = []"
      "printed (trace trained) = []"
    by (simp_all add: trained_def train_loop_model_inputs train_loop_metric_calls
          train_loop_printed init_state_trace proj_Nil)
  have adv: "map snd (attack_inputs (trace trained)) = (if adv_train fl then map fst batches else [])"
  proof -
    have "map snd (concat (map (\<lambda>b. if c then [(projected_gradient_descent, fst b)] else []) bs)) =
            (if c then map fst bs else [])" for c and bs :: "('a \<times> 'a) list"
      by (induction bs) simp_all
    then show ?thesis
      by (simp add: trained_def batches_def train_loop_attack_inputs init_state_trace
            proj_Nil)
  qed
  have ts: "train_step_calls (drop (length (trace trained)) (trace tested)) = []"
    by (rule suffix_projection [OF pre proj_append(5)])
       (simp add: tested_def test_loop_train_step_calls)
  have ai: "attack_inputs (drop (length (trace trained)) (trace tested)) =
      concat (map (\<lambda>b. [(fast_gradient_method, fst b), (projected_gradient_descent, fst b),
                        (basic_iterative_method, fst b), (madry_et_al, fst b),
                        (momentum_iterative_method, fst b), (carlini_wagner_l2, fst b),
                        (carlini_wagner_l2_quantum, fst b)]) (test data))"
    by (rule suffix_projection [OF pre proj_append(1)])
       (simp add: tested_def test_loop_attack_inputs)
  have ai': "map snd (attack_inputs (drop (length (trace trained)) (trace tested))) =
      concat (map (\<lambda>b. replicate 7 (fst b)) (test data))"
  proof -
    have "map snd (concat (map (\<lambda>b. [(fast_gradient_method, fst b), (projected_gradient_descent, fst b),
                        (basic_iterative_method, fst b), (madry_et_al, fst b),
                        (momentum_iterative_method, fst b), (carlini_wagner_l2, fst b),
                        (carlini_wagner_l2_quantum, fst b)]) bs)) =
          concat (map (\<lambda>b. replicate 7 (fst b)) bs)" for bs :: "('a \<times> 'a) list"
      by (induction bs) (simp_all add: numeral_eq_Suc)
    then show ?thesis by (simp add: ai)
  qed
  have vr: "variables_read (drop (length (trace trained)) (trace tested)) =
      replicate (15 * length (test data)) (variables trained)"
    by (rule suffix_projection [OF pre proj_append(6)])
       (simp add: tested_def test_loop_variables_read)
  have vars: "variables (main E fl data) = variables trained"
    by (simp add: main_unfold print_results_frame test_loop_variables trained_def)
  show ?thesis
    unfolding Let_def trained_def [symmetric] batches_def [symmetric]
    using whole labels count quiet adv vars
    by (simp add: ev proj_append shown ts ai' vr)
qed

section \<open>The hyperparameters of the attacks\<close>

text \<open>
  C2, as the script has it. The hyperparameters of every attack call of a run are literals
  of the script, except the \<open>eps\<close> argument of \<open>fast_gradient_method\<close>, of
  \<open>projected_gradient_descent\<close> (in training and in evaluation) and of
  \<open>basic_iterative_method\<close>, which is the value of the \<open>eps\<close> command-line flag. The calls of
  \<open>madry_et_al\<close>, \<open>momentum_iterative_method\<close>, \<open>carlini_wagner_l2\<close> and
  \<open>carlini_wagner_l2_quantum\<close> pass literals only.
\<close>

theorem attack_hyperparameters_literal_except_eps:
  "attack_args (trace (main E fl data)) =
     concat (map (\<lambda>b. if adv_train fl
                       then [(projected_gradient_descent,
                              [HFloat (eps fl), HFloat 0.01, HInt 40, HInf], [])]
                       else [])
               (concat (map (train data) [0..<nat (nb_epochs fl)]))) @
     concat (map (\<lambda>b.
     [(fast_gradient_method, [HFloat (eps fl), HInf], []),
      (projected_gradient_descent, [HFloat (eps fl), HFloat 0.01, HInt 40, HInf], []),
      (basic_iterative_method, [HFloat (eps fl)],
         [(''eps_iter'', HFloat 0.01), (''nb_iter'', HInt 40), (''norm'', HInt 2)]),
      (madry_et_al, [],
         [(''eps'', HFloat 0.01), (''eps_iter'', HFloat 0.01), (''nb_iter'', HInt 40),
          (''norm'', HInf)]),
      (momentum_iterative_method, [],
         [(''eps'', HFloat 0.01), (''eps_iter'', HFloat 0.01), (''nb_iter'', HInt 40),
          (''norm'', HInf)]),
      (carlini_wagner_l2, [], [(''targeted'', HBool False), (''max_iterations'', HInt 50)]),
      (carlini_wagner_l2_quantum, [],
         [(''targeted'', HBool False), (''max_iterations'', HInt 10)])]) (test data))"
  by (rule main_attack_args)

text \<open>
  C2 as stated (no attack argument depends on a command-line flag) fails: two runs on the
  same data and the same collaborators that differ only in the \<open>eps\<close> flag pass different
  hyperparameters to their attacks.
\<close>

theorem attack_hyperparameters_not_all_literal:
  "attack_args (trace (main toy_ext \<lparr>nb_epochs = 8, eps = 0.3, adv_train = False\<rparr> toy_data)) \<noteq>
   attack_args (trace (main toy_ext \<lparr>nb_epochs = 8, eps = 0.1, adv_train = False\<rparr> toy_data))"
  by (simp add: main_attack_args toy_data_def)

text \<open>
  C8. In every run \<open>madry_et_al\<close> and \<open>momentum_iterative_method\<close> are called with
  \<open>eps=0.01, eps_iter=0.01, nb_iter=40, norm=np.inf\<close>, whatever the flags: changing the \<open>eps\<close>
  flag of a run changes none of these hyperparameters. Without adversarial training it
  changes nothing at all about these calls, the model and the batch included (with
  adversarial training the model they attack has been trained on examples made with the
  flag's value). The \<open>eps\<close> bound to \<open>fast_gradient_method\<close>, \<open>projected_gradient_descent\<close> and
  \<open>basic_iterative_method\<close> is the value of the flag.
\<close>

theorem eps_flag_reaches_three_attacks_only:
  "(let hard = [(''eps'', HFloat 0.01), (''eps_iter'', HFloat 0.01), (''nb_iter'', HInt 40),
                (''norm'', HInf)];
        fixed = (\<lambda>tr. map bound_args
                   (filter (\<lambda>c. fst c = madry_et_al \<or> fst c = momentum_iterative_method)
                      (attack_args tr)));
        flagged = (\<lambda>tr. map eps_of
                     (filter (\<lambda>c. fst c = fast_gradient_method
                                  \<or> fst c = projected_gradient_descent
                                  \<or> fst c = basic_iterative_method) (attack_args tr)));
        batches = concat (map (train data) [0..<nat (nb_epochs fl)])
    in fixed (trace (main E fl data)) =
         concat (map (\<lambda>b. [(madry_et_al, hard), (momentum_iterative_method, hard)]) (test data))
     \<and> fixed (trace (main E (fl\<lparr>eps := e\<rparr>) data)) = fixed (trace (main E fl data))
     \<and> fixed_attack_calls (trace (main E (fl\<lparr>eps := e, adv_train := False\<rparr>) data)) =
         fixed_attack_calls (trace (main E (fl\<lparr>adv_train := False\<rparr>) data))
     \<and> flagged (trace (main E (fl\<lparr>eps := e\<rparr>) data)) =
         concat (map (\<lambda>b. if adv_train fl
                           then [(projected_gradient_descent, Some (HFloat e))] else []) batches) @
         concat (map (\<lambda>b. [(fast_gradient_method, Some (HFloat e)),
                            (projected_gradient_descent, Some (HFloat e)),
                            (basic_iterative_method, Some (HFloat e))]) (test data)))"
proof -
  have fixed: "map bound_args
      (filter (\<lambda>c. fst c = madry_et_al \<or> fst c = momentum_iterative_method)
         (attack_args (trace (main E fl' data)))) =
      concat (map (\<lambda>b.
        [(madry_et_al, [(''eps'', HFloat 0.01), (''eps_iter'', HFloat 0.01),
                        (''nb_iter'', HInt 40), (''norm'', HInf)]),
         (momentum_iterative_method, [(''eps'', HFloat 0.01), (''eps_iter'', HFloat 0.01),
                        (''nb_iter'', HInt 40), (''norm'', HInf)])]) (test data))" for fl'
    by (simp add: main_attack_args filter_concat map_concat comp_def bound_args_def
          positional_params_def)
  have flagged: "map eps_of
      (filter (\<lambda>c. fst c = fast_gradient_method \<or> fst c = projected_gradient_descent
                   \<or> fst c = basic_iterative_method)
         (attack_args (trace (main E fl' data)))) =
      concat (map (\<lambda>b. if adv_train fl'
                        then [(projected_gradient_descent, Some (HFloat (eps fl')))] else [])
                (concat (map (train data) [0..<nat (nb_epochs fl')]))) @
      concat (map (\<lambda>b. [(fast_gradient_method, Some (HFloat (eps fl'))),
                         (projected_gradient_descent, Some (HFloat (eps fl'))),
                         (basic_iterative_method, Some (HFloat (eps fl')))]) (test data))" for fl'
    by (simp add: main_attack_args filter_concat map_concat comp_def eps_of_def bound_args_def
          positional_params_def)
  have calls: "fixed_attack_calls (trace (main E (fl\<lparr>eps := e, adv_train := False\<rparr>) data)) =
         fixed_attack_calls (trace (main E (fl\<lparr>adv_train := False\<rparr>) data))"
    by (simp only: main_fixed_attack_calls train_loop_no_adv)
  show ?thesis
    unfolding Let_def
    using fixed [of fl] fixed [of "fl\<lparr>eps := e\<rparr>"] flagged [of "fl\<lparr>eps := e\<rparr>"] calls
    by simp
qed

text \<open>
  C9. Of the attack calls on a test batch, five bind a norm: \<open>basic_iterative_method\<close> is
  called with \<open>norm=2\<close>, and \<open>fast_gradient_method\<close>, \<open>projected_gradient_descent\<close>,
  \<open>madry_et_al\<close> and \<open>momentum_iterative_method\<close> with \<open>np.inf\<close>; the two Carlini-Wagner
  calls pass no norm. Over a whole run (the call of \<open>projected_gradient_descent\<close> in
  adversarial training included) the calls with norm 2 are exactly the calls of
  \<open>basic_iterative_method\<close>, one per test batch.
\<close>

theorem only_bim_uses_l2_norm:
  "map norm_of (attack_args (trace (test_batch E fl s b))) =
     map norm_of (attack_args (trace s)) @
     [(fast_gradient_method, Some HInf), (projected_gradient_descent, Some HInf),
      (basic_iterative_method, Some (HInt 2)), (madry_et_al, Some HInf),
      (momentum_iterative_method, Some HInf), (carlini_wagner_l2, None),
      (carlini_wagner_l2_quantum, None)]
   \<and> map norm_of (attack_args (trace (main E fl data))) =
       concat (map (\<lambda>b. if adv_train fl then [(projected_gradient_descent, Some HInf)] else [])
                 (concat (map (train data) [0..<nat (nb_epochs fl)]))) @
       concat (map (\<lambda>b. [(fast_gradient_method, Some HInf), (projected_gradient_descent, Some HInf),
                          (basic_iterative_method, Some (HInt 2)), (madry_et_al, Some HInf),
                          (momentum_iterative_method, Some HInf), (carlini_wagner_l2, None),
                          (carlini_wagner_l2_quantum, None)]) (test data))
   \<and> filter (\<lambda>c. snd c = Some (HInt 2)) (map norm_of (attack_args (trace (main E fl data)))) =
       map (\<lambda>b. (basic_iterative_method, Some (HInt 2))) (test data)"
proof -
  have batch: "map norm_of (attack_args (trace (test_batch E fl s b))) =
     map norm_of (attack_args (trace s)) @
     [(fast_gradient_method, Some HInf), (projected_gradient_descent, Some HInf),
      (basic_iterative_method, Some (HInt 2)), (madry_et_al, Some HInf),
      (momentum_iterative_method, Some HInf), (carlini_wagner_l2, None),
      (carlini_wagner_l2_quantum, None)]"
    by (simp add: test_batch_attack_args norm_of_def bound_args_def positional_params_def)
  have run: "map norm_of (attack_args (trace (main E fl data))) =
       concat (map (\<lambda>b. if adv_train fl then [(projected_gradient_descent, Some HInf)] else [])
                 (concat (map (train data) [0..<nat (nb_epochs fl)]))) @
       concat (map (\<lambda>b. [(fast_gradient_method, Some HInf), (projected_gradient_descent, Some HInf),
                          (basic_iterative_method, Some (HInt 2)), (madry_et_al, Some HInf),
                          (momentum_iterative_method, Some HInf), (carlini_wagner_l2, None),
                          (carlini_wagner_l2_quantum, None)]) (test data))"
    by (simp add: main_attack_args map_concat comp_def norm_of_def bound_args_def
          positional_params_def)
  have l2: "filter (\<lambda>c. snd c = Some (HInt 2)) (map norm_of (attack_args (trace (main E fl data)))) =
       map (\<lambda>b. (basic_iterative_method, Some (HInt 2))) (test data)"
  proof -
    have "concat (map (\<lambda>b. [c]) bs) = map (\<lambda>b. c) bs" for c :: "attack \<times> hyper option"
      and bs :: "('a \<times> 'a) list"
      by (induction bs) simp_all
    then show ?thesis
      unfolding run by (simp add: filter_concat comp_def)
  qed
  show ?thesis
    using batch run l2 by simp
qed

end
